theory Spec2Isabelle
  imports Main "HOL-Library.Word"
begin

unbundle bit_operations_syntax

section \<open>Thunderbolt router configuration engine (router.c)\<close>

text \<open>
  A shallow embedding of the command engine of \<^verbatim>\<open>sys/dev/thunderbolt/router.c\<close>.
  Objects that the C code reaches through pointers are named by addresses (natural
  numbers); \<open>None\<close> is the C \<^verbatim>\<open>NULL\<close>. Functions return the \<^verbatim>\<open>int\<close> error
  code of the C function together with the state they leave behind.
\<close>

subsection \<open>Error numbers\<close>

text \<open>The values of \<^verbatim>\<open>sys/errno.h\<close>; \<^verbatim>\<open>EWOULDBLOCK\<close> is what \<^verbatim>\<open>msleep\<close>
  returns when its timeout expires.\<close>

definition ENOENT :: int where "ENOENT = 2"
definition ENOMEM :: int where "ENOMEM = 12"
definition EBUSY :: int where "EBUSY = 16"
definition EEXIST :: int where "EEXIST = 17"
definition EINVAL :: int where "EINVAL = 22"
definition EWOULDBLOCK :: int where "EWOULDBLOCK = 35"
definition ETIMEDOUT :: int where "ETIMEDOUT = 60"

lemmas errno_defs = ENOENT_def ENOMEM_def EBUSY_def EEXIST_def EINVAL_def
  EWOULDBLOCK_def ETIMEDOUT_def

subsection \<open>Data model\<close>

type_synonym ptr = nat

record tb_route =
  hi :: "32 word"
  lo :: "32 word"

text \<open>
  \<^verbatim>\<open>struct router_softc\<close> (declared in a header that is not part of the sources),
  with the fields the engine reads or writes.
  \<open>adapters\<close> is \<open>None\<close> while the array is not allocated; an allocated array holds
  one child pointer (or \<^verbatim>\<open>NULL\<close>) per adapter index. \<open>cmd_queue\<close> is the
  \<^verbatim>\<open>TAILQ\<close> of pending commands, head first.
\<close>

record router_softc =
  route :: tb_route
  depth :: nat
  max_adap :: nat
  adapters :: "ptr option list option"
  suspended :: bool
  inflight_cmd :: "ptr option"
  cmd_queue :: "ptr list"

subsection \<open>Power state hooks\<close>

text \<open>
  \<^verbatim>\<open>tb_router_resume\<close>: the early return is taken when \<^verbatim>\<open>sc->suspended\<close> is set;
  otherwise the flag is assigned \<^verbatim>\<open>false\<close>.
\<close>

definition tb_router_resume :: "router_softc \<Rightarrow> int \<times> router_softc" where
  "tb_router_resume sc =
     (if suspended sc then (0, sc)
      else (0, sc\<lparr>suspended := False\<rparr>))"

subsection \<open>Detach\<close>

text \<open>
  \<^verbatim>\<open>tb_router_detach\<close> for the node at address \<open>p\<close>. The second component lists
  the addresses handed to \<^verbatim>\<open>free\<close>, in call order: the first call is made when
  the adapter array is allocated, the second always (\<^verbatim>\<open>sc\<close> has been
  dereferenced, so it is not \<^verbatim>\<open>NULL\<close>); both pass \<^verbatim>\<open>sc\<close> itself.
\<close>

definition tb_router_detach :: "ptr \<Rightarrow> router_softc \<Rightarrow> int \<times> ptr list" where
  "tb_router_detach p sc =
     (if cmd_queue sc \<noteq> [] then (EBUSY, [])
      else (0, (if adapters sc \<noteq> None then [p] else []) @ [p]))"

subsection \<open>Frame transport\<close>

text \<open>
  Modelled from the spec: \<^verbatim>\<open>nhi_tx_schedule\<close> (the Frame Transport's
  \<^verbatim>\<open>submit(Frame) -> Ok | Busy | Error\<close>) is not part of the sources. The ring
  carries a script of the results the transport gives to its next submissions (0 once
  the script is used up) and the frames it has accepted, oldest first; a frame is
  accepted exactly when the result is 0.
\<close>

record 'f nhi_ring =
  tx_script :: "int list"
  tx_frames :: "'f list"

definition nhi_tx_schedule :: "'f nhi_ring \<Rightarrow> 'f \<Rightarrow> int \<times> 'f nhi_ring" where
  "nhi_tx_schedule r f =
     (case tx_script r of
        [] \<Rightarrow> (0, r\<lparr>tx_frames := tx_frames r @ [f]\<rparr>)
      | e # es \<Rightarrow>
          if e = 0 then (0, r\<lparr>tx_script := es, tx_frames := tx_frames r @ [f]\<rparr>)
          else (e, r\<lparr>tx_script := es\<rparr>))"

subsection \<open>Command scheduler\<close>

text \<open>
  The \<^verbatim>\<open>while\<close> loop of \<^verbatim>\<open>router_schedule_locked\<close>. A command is named by its
  address, which also names its transport frame (\<^verbatim>\<open>cmd->nhicmd\<close>). The third
  argument is the local \<^verbatim>\<open>error\<close>.
\<close>

function router_schedule_loop ::
  "ptr nhi_ring \<Rightarrow> router_softc \<Rightarrow> int \<Rightarrow> int \<times> ptr nhi_ring \<times> router_softc" where
  "router_schedule_loop r sc error =
     (if inflight_cmd sc = None \<and> cmd_queue sc \<noteq> [] then
        (let cmd = hd (cmd_queue sc);
             sc1 = sc\<lparr>cmd_queue := tl (cmd_queue sc)\<rparr>;
             sc2 = sc1\<lparr>inflight_cmd := Some cmd\<rparr>;
             res = nhi_tx_schedule r cmd;
             err = fst res; r' = snd res
         in if err \<noteq> 0 then
              (let sc3 = sc2\<lparr>inflight_cmd := None\<rparr>
               in if err = EBUSY
                  then (0, r', sc3\<lparr>cmd_queue := cmd # cmd_queue sc3\<rparr>)
                  else (err, r', sc3))
            else router_schedule_loop r' sc2 err)
      else (error, r, sc))"
  by pat_completeness auto
termination
  by (relation "measure (\<lambda>(r, sc, e). length (cmd_queue sc))") auto

declare router_schedule_loop.simps [simp del]

text \<open>\<^verbatim>\<open>router_schedule_locked\<close>: a non-\<^verbatim>\<open>NULL\<close> command is appended to the queue,
  then the queue is drained.\<close>

definition router_schedule_locked ::
  "ptr nhi_ring \<Rightarrow> router_softc \<Rightarrow> ptr option \<Rightarrow> int \<times> ptr nhi_ring \<times> router_softc" where
  "router_schedule_locked r sc cmd =
     (let sc' = (case cmd of None \<Rightarrow> sc
                 | Some c \<Rightarrow> sc\<lparr>cmd_queue := cmd_queue sc @ [c]\<rparr>)
      in router_schedule_loop r sc' 0)"

subsection \<open>Operations on one node's slot and queue\<close>

text \<open>
  The places where the engine touches a node's inflight slot and queue: a caller
  enqueues a command (\<^verbatim>\<open>router_schedule_locked(sc, cmd)\<close>), the queue is drained
  (\<^verbatim>\<open>router_schedule_locked(sc, NULL)\<close>), the completion callback
  \<^verbatim>\<open>router_get_config_cb\<close> clears the slot and drains, and a waiter whose wait timed
  out clears the slot (\<^verbatim>\<open>sc->inflight_cmd = NULL\<close> in \<^verbatim>\<open>tb_config_read\<close>).
  \<open>router_get_config_cb_sc\<close> is the part of the callback that acts on the node.
\<close>

datatype sched_op = Enqueue ptr | Drain | Completion | Timeout_clear

definition router_get_config_cb_sc ::
  "ptr nhi_ring \<Rightarrow> router_softc \<Rightarrow> ptr nhi_ring \<times> router_softc" where
  "router_get_config_cb_sc r sc =
     (let res = router_schedule_locked r (sc\<lparr>inflight_cmd := None\<rparr>) None
      in (fst (snd res), snd (snd res)))"

fun sched_step :: "sched_op \<Rightarrow> ptr nhi_ring \<times> router_softc \<Rightarrow> ptr nhi_ring \<times> router_softc" where
  "sched_step (Enqueue c) (r, sc) = snd (router_schedule_locked r sc (Some c))"
| "sched_step Drain (r, sc) = snd (router_schedule_locked r sc None)"
| "sched_step Completion (r, sc) = router_get_config_cb_sc r sc"
| "sched_step Timeout_clear (r, sc) = (r, sc\<lparr>inflight_cmd := None\<rparr>)"

fun sched_run :: "sched_op list \<Rightarrow> ptr nhi_ring \<times> router_softc \<Rightarrow> ptr nhi_ring \<times> router_softc" where
  "sched_run [] s = s"
| "sched_run (x # xs) s = sched_run xs (sched_step x s)"

text \<open>Instrumentation: the number of commands in the slot, and the number of
  slot-clearing operations in a sequence.\<close>

definition occupancy :: "router_softc \<Rightarrow> nat" where
  "occupancy sc = (case inflight_cmd sc of None \<Rightarrow> 0 | Some c \<Rightarrow> 1)"

fun clears :: "sched_op list \<Rightarrow> nat" where
  "clears [] = 0"
| "clears (Completion # xs) = Suc (clears xs)"
| "clears (Timeout_clear # xs) = Suc (clears xs)"
| "clears (x # xs) = clears xs"

text \<open>A node with no children, no inflight command and an empty queue.\<close>

definition sc_example :: router_softc where
  "sc_example = \<lparr>route = \<lparr>hi = 0, lo = 0\<rparr>, depth = 0, max_adap = 0, adapters = None,
     suspended = False, inflight_cmd = None, cmd_queue = []\<rparr>"

subsection \<open>Route resolver\<close>

text \<open>
  Modelled from the spec: the macro \<^verbatim>\<open>TB_ROUTE\<close> is defined in a header that is not
  part of the sources. A node's route value is the 64-bit packing of its route words,
  the same packing \<^verbatim>\<open>router_lookup_device\<close> applies to the route it searches for.
\<close>

definition TB_ROUTE :: "router_softc \<Rightarrow> 64 word" where
  "TB_ROUTE sc = push_bit 32 (ucast (hi (route sc))) OR ucast (lo (route sc))"

text \<open>
  The nodes of the topology live in a heap. The loop of \<^verbatim>\<open>router_lookup_device\<close>:
  the result is \<open>None\<close> where the C code would read through a dangling pointer or
  past the end of an adapter array, and otherwise the returned error code together
  with the node stored through \<^verbatim>\<open>dev\<close>.
\<close>

type_synonym node_heap = "ptr \<Rightarrow> router_softc option"

function router_lookup_loop ::
  "node_heap \<Rightarrow> 64 word \<Rightarrow> ptr option \<Rightarrow> 64 word \<Rightarrow> (int \<times> ptr option) option" where
  "router_lookup_loop h search_rt cursor remainder_rt =
     (case cursor of
        None \<Rightarrow> Some (ENOENT, None)
      | Some c \<Rightarrow>
          (case h c of
             None \<Rightarrow> None
           | Some node \<Rightarrow>
               if TB_ROUTE node = search_rt then Some (0, Some c)
               else
                 (let hop = remainder_rt AND 0xff
                  in if hop = 0 then Some (ENOENT, None)
                     else if max_adap node < unat hop then Some (EINVAL, None)
                     else
                       (case adapters node of
                          None \<Rightarrow> Some (EINVAL, None)
                        | Some arr \<Rightarrow>
                            if unat hop < length arr
                            then router_lookup_loop h search_rt (arr ! unat hop)
                                   (drop_bit 8 remainder_rt)
                            else None))))"
  by pat_completeness auto
termination
  by (relation "measure (\<lambda>(h, s, c, r). unat r)") (auto simp add: drop_bit_eq_div unat_div unat_gt_0 intro!: div_less_dividend)


declare router_lookup_loop.simps [simp del]

text \<open>\<^verbatim>\<open>router_lookup_device\<close>; \<open>root\<close> is what \<^verbatim>\<open>tb_config_get_root\<close> returns.\<close>

definition router_lookup_device ::
  "node_heap \<Rightarrow> ptr option \<Rightarrow> tb_route \<Rightarrow> (int \<times> ptr option) option" where
  "router_lookup_device h root rt =
     (let search_rt = ucast (lo rt) OR push_bit 32 (ucast (hi rt))
      in router_lookup_loop h search_rt root search_rt)"

text \<open>
  \<^verbatim>\<open>router_insert(sc, parent)\<close>. A shift of the 64-bit route by 64 bits or more is
  undefined in C and gives \<open>None\<close>, as does an unallocated or too short adapter
  array of the parent.
\<close>

definition router_insert ::
  "node_heap \<Rightarrow> ptr \<Rightarrow> ptr option \<Rightarrow> (int \<times> node_heap) option" where
  "router_insert h sc parent =
     (case parent of
        None \<Rightarrow> Some (EINVAL, h)
      | Some pp \<Rightarrow>
          (case (h sc, h pp) of
             (Some s, Some par) \<Rightarrow>
               if 64 \<le> depth s * 8 then None
               else
                 (let this_rt = TB_ROUTE s
                  in if 0xff < drop_bit (depth s * 8) this_rt \<or> depth par + 1 \<noteq> depth s
                     then Some (EINVAL, h)
                     else
                       (let this_hop = unat (drop_bit (depth s * 8) this_rt AND 0xff)
                        in if max_adap par < this_hop then Some (EINVAL, h)
                           else
                             (case adapters par of
                                None \<Rightarrow> None
                              | Some arr \<Rightarrow>
                                  if length arr \<le> this_hop then None
                                  else if arr ! this_hop \<noteq> None then Some (EEXIST, h)
                                  else Some (0, h(pp \<mapsto>
                                         par\<lparr>adapters := Some (arr[this_hop := Some sc])\<rparr>)))))
           | _ \<Rightarrow> None))"

text \<open>A root with adapters 0 to 3, all free, and a node one hop below it at
  adapter 1.\<close>

definition root_example :: router_softc where
  "root_example = sc_example\<lparr>max_adap := 3, adapters := Some [None, None, None, None]\<rparr>"

definition child_example :: router_softc where
  "child_example = sc_example\<lparr>route := \<lparr>hi = 0, lo = 1\<rparr>, depth := 1\<rparr>"

definition heap_example :: node_heap where
  "heap_example = [10 \<mapsto> root_example, 11 \<mapsto> child_example]"

subsection \<open>Capability walker\<close>

text \<open>
  \<^verbatim>\<open>struct router_cfg_cap\<close> is the cursor of a walk. \<open>tb_cfg_cap\<close> holds the fields
  of the \<^verbatim>\<open>union tb_cfg_cap\<close> buffer that the walker reads (header, vendor specific
  and extended vendor specific views). \<open>tbcfg_reg\<close> collects the constants of
  \<^verbatim>\<open>tbcfg_reg.h\<close> that the walker uses; the header is not part of the sources, so
  they are parameters. A \<open>cfg_reader\<close> stands for \<^verbatim>\<open>tb_config_read\<close> on the hardware:
  from a hardware state, a space, an adapter, an offset, a dword count and the buffer it
  gives the error code, the buffer after the read and the next hardware state.
\<close>

record router_cfg_cap =
  current_cap :: nat
  next_cap :: nat
  space :: nat
  adap :: nat
  cap_id :: nat
  vsc_id :: nat
  vsc_len :: nat
  vsec_len :: nat

record tb_cfg_cap =
  hdr_next_cap :: nat
  hdr_cap_id :: nat
  vsc_vsc_id :: nat
  vsc_vsc_len :: nat
  vsec_vsec_next_cap :: nat
  vsec_vsec_len :: nat

record tbcfg_reg =
  TB_CFG_CS_ROUTER :: nat
  TB_CFG_CAP_VSC :: nat
  TB_CFG_CAP_OFFSET_MAX :: nat

type_synonym 's cfg_reader =
  "'s \<Rightarrow> nat \<Rightarrow> nat \<Rightarrow> nat \<Rightarrow> nat \<Rightarrow> tb_cfg_cap \<Rightarrow> int \<times> tb_cfg_cap \<times> 's"

text \<open>
  \<^verbatim>\<open>tb_config_next_cap\<close>. The buffer starts zeroed (\<^verbatim>\<open>M_ZERO\<close>; the allocation
  is taken to succeed). The result of the second read is not assigned to
  \<^verbatim>\<open>error\<close>, which is still 0 when it is tested again.
\<close>

definition tb_config_next_cap ::
  "tbcfg_reg \<Rightarrow> 's cfg_reader \<Rightarrow> 's \<Rightarrow> router_cfg_cap \<Rightarrow> int \<times> router_cfg_cap \<times> 's" where
  "tb_config_next_cap K rd s cap =
     (let buf = \<lparr>hdr_next_cap = 0, hdr_cap_id = 0, vsc_vsc_id = 0, vsc_vsc_len = 0,
                 vsec_vsec_next_cap = 0, vsec_vsec_len = 0\<rparr>;
          current = next_cap cap
      in case rd s (space cap) (adap cap) current 1 buf of
           (error, tbcap, s1) \<Rightarrow>
             if error \<noteq> 0 then (error, cap, s1)
             else
               (let cap1 = cap\<lparr>cap_id := hdr_cap_id tbcap, next_cap := hdr_next_cap tbcap,
                              current_cap := current\<rparr>
                in if space cap1 \<noteq> TB_CFG_CS_ROUTER K \<and> hdr_cap_id tbcap \<noteq> TB_CFG_CAP_VSC K
                   then (0, cap1, s1)
                   else
                     (case rd s1 (space cap1) (adap cap1) current 2 tbcap of
                        (error2, tbcap2, s2) \<Rightarrow>
                          (let cap2 = cap1\<lparr>vsc_id := vsc_vsc_id tbcap2,
                                          vsc_len := vsc_vsc_len tbcap2\<rparr>
                           in if vsc_vsc_len tbcap2 = 0
                              then (0, cap2\<lparr>next_cap := vsec_vsec_next_cap tbcap2,
                                            vsec_len := vsec_vsec_len tbcap2\<rparr>, s2)
                              else (0, cap2, s2)))))"

text \<open>
  The \<^verbatim>\<open>while\<close> loop of \<^verbatim>\<open>tb_config_find_cap\<close>; \<open>None\<close> means that the loop
  does not return. A failed read leaves the loop through \<^verbatim>\<open>break\<close>, after which the
  function returns 0.
\<close>

partial_function (option) tb_config_find_cap_loop ::
  "tbcfg_reg \<Rightarrow> 's cfg_reader \<Rightarrow> nat \<Rightarrow> nat \<Rightarrow> router_cfg_cap \<Rightarrow> 's
     \<Rightarrow> (int \<times> router_cfg_cap \<times> 's) option" where
  "tb_config_find_cap_loop K rd want_cap want_vsc cap s =
     (if cap_id cap \<noteq> want_cap \<or> vsc_id cap \<noteq> want_vsc then
        if next_cap cap = 0 \<or> TB_CFG_CAP_OFFSET_MAX K < next_cap cap
        then Some (EINVAL, cap, s)
        else
          (case tb_config_next_cap K rd s cap of
             (error, cap', s') \<Rightarrow>
               if error \<noteq> 0 then Some (0, cap', s')
               else tb_config_find_cap_loop K rd want_cap want_vsc cap' s')
      else Some (0, cap, s))"

definition tb_config_find_cap ::
  "tbcfg_reg \<Rightarrow> 's cfg_reader \<Rightarrow> 's \<Rightarrow> router_cfg_cap \<Rightarrow> (int \<times> router_cfg_cap \<times> 's) option" where
  "tb_config_find_cap K rd s cap =
     tb_config_find_cap_loop K rd (cap_id cap) (vsc_id cap) (cap\<lparr>cap_id := 0, vsc_id := 0\<rparr>) s"


text \<open>\<open>chain_ascends\<close>: every successful step of the walk leaves a next-capability
  offset that is zero or greater than the offset it has just read.\<close>

definition chain_ascends :: "tbcfg_reg \<Rightarrow> 's cfg_reader \<Rightarrow> bool" where
  "chain_ascends K rd \<longleftrightarrow>
     (\<forall>s cap. fst (tb_config_next_cap K rd s cap) = 0 \<longrightarrow>
        next_cap (fst (snd (tb_config_next_cap K rd s cap))) = 0
        \<or> next_cap cap < next_cap (fst (snd (tb_config_next_cap K rd s cap))))"

text \<open>
  Example hardware. \<open>cyclic_reader\<close>: every header read returns capability id 1
  with next offset 1. \<open>ascending_reader\<close>: capabilities 1, 2, 3 at offsets 1, 2, 3,
  the last one ending the chain. \<open>cap_example\<close> asks for capability 4 in an adapter
  space, starting at offset 1.
\<close>

definition tbcfg_example :: tbcfg_reg where
  "tbcfg_example = \<lparr>TB_CFG_CS_ROUTER = 2, TB_CFG_CAP_VSC = 5, TB_CFG_CAP_OFFSET_MAX = 4095\<rparr>"

definition cyclic_reader :: "unit cfg_reader" where
  "cyclic_reader s sp ad off n buf = (0, buf\<lparr>hdr_next_cap := 1, hdr_cap_id := 1\<rparr>, s)"

definition cap_example :: router_cfg_cap where
  "cap_example = \<lparr>current_cap = 0, next_cap = 1, space = 1, adap = 3, cap_id = 4, vsc_id = 0,
     vsc_len = 0, vsec_len = 0\<rparr>"


definition ascending_reader :: "unit cfg_reader" where
  "ascending_reader s sp ad off n buf =
     (0, buf\<lparr>hdr_next_cap := (if off < 3 then off + 1 else 0), hdr_cap_id := off\<rparr>, s)"

subsection \<open>Commands, frames and the engine state\<close>

definition CFG_DEFAULT_RETRIES :: int where "CFG_DEFAULT_RETRIES = 3"
definition CFG_DEFAULT_TIMEOUT :: nat where "CFG_DEFAULT_TIMEOUT = 2"

text \<open>
  \<^verbatim>\<open>htobe32\<close> and \<^verbatim>\<open>be32toh\<close> of \<^verbatim>\<open>sys/endian.h\<close> on a little-endian host: the
  four bytes of the word are reversed.
\<close>

definition htobe32 :: "32 word \<Rightarrow> 32 word" where
  "htobe32 x = push_bit 24 (x AND 0xff) OR push_bit 8 (x AND 0xff00)
     OR (drop_bit 8 x AND 0xff00) OR drop_bit 24 x"

definition be32toh :: "32 word \<Rightarrow> 32 word" where
  "be32toh x = htobe32 x"

text \<open>
  The constants, macros and helpers that the engine takes from headers and files that
  are not part of the sources (\<^verbatim>\<open>tb_reg.h\<close>, \<^verbatim>\<open>tbcfg_reg.h\<close>, \<^verbatim>\<open>nhi_reg.h\<close>,
  \<^verbatim>\<open>tb_calc_crc\<close>); they are parameters of the model. \<open>notify_codes\<close> lists the case
  labels of the \<^verbatim>\<open>switch\<close> in \<^verbatim>\<open>router_notify_intr\<close>, the \<open>SIZEOF\<close> fields are
  \<^verbatim>\<open>sizeof\<close> of the three message structures, in bytes.
\<close>

record tbcfg_proto =
  TB_CONFIG_ADDR :: "nat \<Rightarrow> nat \<Rightarrow> nat \<Rightarrow> nat \<Rightarrow> nat \<Rightarrow> 32 word"
  tb_calc_crc :: "32 word list \<Rightarrow> nat \<Rightarrow> 32 word"
  NHI_CMD_TIMEOUT :: nat
  NHI_RING0_FRAME_SIZE :: nat
  TB_CFG_SIZE_MASK :: "32 word"
  TB_CFG_SIZE_SHIFT :: nat
  GET_NOTIFY_EVENT :: "32 word \<Rightarrow> 32 word"
  notify_codes :: "32 word list"
  TB_CFG_HP_ACK :: "32 word"
  TB_CFG_UPG_UNPLUG :: "32 word"
  TB_CFG_PG_PLUG :: "32 word"
  TB_CFG_ADPT_MASK :: "32 word"
  SIZEOF_tb_cfg_read :: nat
  SIZEOF_tb_cfg_write :: nat
  SIZEOF_tb_cfg_notify :: nat

text \<open>
  A callback is a function pointer: either \<^verbatim>\<open>router_get_config_cb\<close> or a function
  supplied by the caller of the asynchronous interface. \<open>nhi_cmd_frame\<close> and
  \<open>router_command\<close> hold the fields of the C structures that the engine uses; the two
  completion bits of \<^verbatim>\<open>nhicmd->flags\<close> and the two bits of \<^verbatim>\<open>cmd->flags\<close> are
  booleans. \<^verbatim>\<open>nhicmd->resp_buffer\<close> aliases \<^verbatim>\<open>cmd->resp_buffer\<close>, so the record has
  the buffer once, as a list of 32-bit words.
\<close>

datatype pdf_type = PDF_READ | PDF_WRITE | PDF_NOTIFY | PDF_HOTPLUG

datatype callback_fn = Router_get_config_cb | Caller_cb nat

record nhi_cmd_frame =
  data :: "32 word list"
  pdf :: pdf_type
  req_len :: nat
  frame_timeout :: nat
  frame_retries :: nat
  resp_len :: nat
  req_complete :: bool
  resp_complete :: bool

record router_command =
  cmd_sc :: "ptr option"
  nhicmd :: nhi_cmd_frame
  polled :: bool
  poll_complete :: bool
  callback :: "callback_fn option"
  callback_arg :: "ptr option"
  dwlen :: nat
  timeout :: nat
  retries :: int
  ev :: "32 word"
  resp_buffer :: "32 word list"

text \<open>
  The state of the engine: the root of the topology, the heap of nodes, the transport
  ring, the heap of commands, the callers' buffers, and a log of the callback
  invocations (callback, node, command) in the order they are made. A function returns
  \<open>None\<close> where the C code would dereference a pointer that is \<^verbatim>\<open>NULL\<close> or
  dangling, or would access a buffer out of bounds.
\<close>

record world =
  w_root :: "ptr option"
  w_nodes :: node_heap
  w_ring :: "ptr nhi_ring"
  w_cmds :: "ptr \<Rightarrow> router_command option"
  w_bufs :: "ptr \<Rightarrow> 32 word list option"
  w_calls :: "(callback_fn \<times> ptr \<times> ptr) list"

text \<open>
  \<^verbatim>\<open>router_alloc_cmd\<close>: the outcome of the two allocations is an input. The command
  is zeroed (\<^verbatim>\<open>M_ZERO\<close>) and gets the frame \<open>f\<close> that the transport hands out. The
  response buffer of a command is taken to have the size of one ring frame.
\<close>

datatype alloc_result = No_memory | No_frame | Allocated ptr nhi_cmd_frame

definition router_alloc_cmd ::
  "tbcfg_proto \<Rightarrow> alloc_result \<Rightarrow> world \<Rightarrow> ptr \<Rightarrow> int \<times> world \<times> ptr option" where
  "router_alloc_cmd K A w sc =
     (case A of
        No_memory \<Rightarrow> (ENOMEM, w, None)
      | No_frame \<Rightarrow> (EBUSY, w, None)
      | Allocated p f \<Rightarrow>
          (0, w\<lparr>w_cmds := (w_cmds w)(p \<mapsto>
                 \<lparr>cmd_sc = Some sc, nhicmd = f, polled = False, poll_complete = False,
                  callback = None, callback_arg = None, dwlen = 0, timeout = 0, retries = 0,
                  ev = 0, resp_buffer = replicate (NHI_RING0_FRAME_SIZE K div 4) 0\<rparr>)\<rparr>,
           Some p))"

definition router_free_cmd :: "world \<Rightarrow> ptr option \<Rightarrow> world" where
  "router_free_cmd w cmd =
     (case cmd of None \<Rightarrow> w | Some p \<Rightarrow> w\<lparr>w_cmds := (w_cmds w)(p := None)\<rparr>)"

text \<open>
  \<open>frame_bzero\<close> is \<^verbatim>\<open>bzero\<close> on the first \<open>len\<close> bytes of a frame.
  \<open>frame_checksum\<close> is the framing code shared by \<^verbatim>\<open>router_prepare_read\<close>,
  \<^verbatim>\<open>router_prepare_write\<close> and \<^verbatim>\<open>router_hotplug_ack\<close>: the first
  \<open>(len - 4) / 4\<close> words are converted to big endian and the next word receives the
  checksum of those \<open>len - 4\<close> bytes.
\<close>

definition frame_bzero :: "32 word list \<Rightarrow> nat \<Rightarrow> 32 word list" where
  "frame_bzero d len = replicate (len div 4) 0 @ drop (len div 4) d"

definition frame_checksum :: "tbcfg_proto \<Rightarrow> nhi_cmd_frame \<Rightarrow> nat \<Rightarrow> nhi_cmd_frame" where
  "frame_checksum K f len =
     (let msglen = (len - 4) div 4;
          swapped = map htobe32 (take msglen (data f)) @ drop msglen (data f)
      in f\<lparr>data := swapped[msglen := htobe32 (tb_calc_crc K swapped (len - 4))]\<rparr>)"

definition router_prepare_read ::
  "tbcfg_proto \<Rightarrow> router_command \<Rightarrow> nat \<Rightarrow> router_command" where
  "router_prepare_read K cmd len =
     (let f = frame_checksum K (nhicmd cmd) len;
          f' = f\<lparr>pdf := PDF_READ, req_len := len, frame_timeout := NHI_CMD_TIMEOUT K,
                 frame_retries := 0, resp_len := (dwlen cmd + 3) * 4\<rparr>
      in cmd\<lparr>nhicmd := f', retries := CFG_DEFAULT_RETRIES, timeout := CFG_DEFAULT_TIMEOUT\<rparr>)"

definition router_prepare_write ::
  "tbcfg_proto \<Rightarrow> router_command \<Rightarrow> nat \<Rightarrow> router_command" where
  "router_prepare_write K cmd len =
     (let f = frame_checksum K (nhicmd cmd) len;
          f' = f\<lparr>pdf := PDF_WRITE, req_len := len, frame_timeout := NHI_CMD_TIMEOUT K,
                 frame_retries := 0, resp_len := (dwlen cmd + 3) * 4\<rparr>
      in cmd\<lparr>nhicmd := f', retries := CFG_DEFAULT_RETRIES, timeout := CFG_DEFAULT_TIMEOUT\<rparr>)"

text \<open>
  \<^verbatim>\<open>_tb_config_read\<close> and \<^verbatim>\<open>_tb_config_write\<close> (an Isabelle name cannot start with an
  underscore). The result holds the error code, the state and the new command.
\<close>

definition tb_config_read_raw ::
  "tbcfg_proto \<Rightarrow> alloc_result \<Rightarrow> world \<Rightarrow> ptr \<Rightarrow> nat \<Rightarrow> nat \<Rightarrow> nat \<Rightarrow> nat \<Rightarrow> ptr
     \<Rightarrow> callback_fn \<Rightarrow> (int \<times> world \<times> ptr option) option" where
  "tb_config_read_raw K A w sc spc adapter offset dwl buf cb =
     (case router_alloc_cmd K A w sc of
        (error, w1, None) \<Rightarrow> Some (error, w1, None)
      | (error, w1, Some p) \<Rightarrow>
          (case (w_nodes w1 sc, w_cmds w1 p) of
             (Some n, Some cmd) \<Rightarrow>
               (let msg = (frame_bzero (data (nhicmd cmd)) (SIZEOF_tb_cfg_read K))
                            [0 := hi (route n), 1 := lo (route n),
                             2 := TB_CONFIG_ADDR K 0 spc adapter dwl offset];
                    f = (nhicmd cmd)\<lparr>data := msg\<rparr>;
                    cmd1 = cmd\<lparr>nhicmd := f, callback := Some cb, callback_arg := Some buf,
                               dwlen := dwl\<rparr>;
                    cmd2 = router_prepare_read K cmd1 (SIZEOF_tb_cfg_read K)
                in Some (0, w1\<lparr>w_cmds := (w_cmds w1)(p \<mapsto> cmd2)\<rparr>, Some p))
           | _ \<Rightarrow> None))"


definition tb_config_write_raw ::
  "tbcfg_proto \<Rightarrow> alloc_result \<Rightarrow> world \<Rightarrow> ptr \<Rightarrow> nat \<Rightarrow> nat \<Rightarrow> nat \<Rightarrow> nat \<Rightarrow> ptr
     \<Rightarrow> callback_fn \<Rightarrow> (int \<times> world \<times> ptr option) option" where
  "tb_config_write_raw K A w sc spc adapter offset dwl buf cb =
     (case router_alloc_cmd K A w sc of
        (error, w1, None) \<Rightarrow> Some (error, w1, None)
      | (error, w1, Some p) \<Rightarrow>
          (case (w_nodes w1 sc, w_cmds w1 p, w_bufs w1 buf) of
             (Some n, Some cmd, Some src) \<Rightarrow>
               if length src < dwl \<or> length (data (nhicmd cmd)) < 3 + dwl then None
               else
                 (let msglen = SIZEOF_tb_cfg_write K + dwl * 4;
                      hdr = (frame_bzero (data (nhicmd cmd)) msglen)
                              [0 := hi (route n), 1 := lo (route n),
                               2 := TB_CONFIG_ADDR K 0 spc adapter dwl offset];
                      msg = fold (\<lambda>i d. d[3 + i := src ! i]) [0..<dwl] hdr;
                      f = (nhicmd cmd)\<lparr>data := msg\<rparr>;
                      cmd1 = cmd\<lparr>nhicmd := f, callback := Some cb, callback_arg := Some buf,
                                 dwlen := dwl\<rparr>;
                      cmd2 = router_prepare_write K cmd1 msglen
                  in Some (0, w1\<lparr>w_cmds := (w_cmds w1)(p \<mapsto> cmd2)\<rparr>, Some p))
           | _ \<Rightarrow> None))"

text \<open>
  \<^verbatim>\<open>router_schedule\<close> on a node of the heap, and the completion callback
  \<^verbatim>\<open>router_get_config_cb\<close>: the response is copied to the caller's buffer only when
  no event was recorded, the slot is cleared, a polled command is marked complete, and
  the queue is drained.
\<close>

definition router_schedule :: "world \<Rightarrow> ptr \<Rightarrow> ptr \<Rightarrow> (int \<times> world) option" where
  "router_schedule w sc cmd =
     (case w_nodes w sc of
        None \<Rightarrow> None
      | Some n \<Rightarrow>
          (let res = router_schedule_locked (w_ring w) n (Some cmd)
           in Some (fst res, w\<lparr>w_ring := fst (snd res),
                                w_nodes := (w_nodes w)(sc \<mapsto> snd (snd res))\<rparr>)))"

definition router_get_config_cb :: "world \<Rightarrow> ptr \<Rightarrow> ptr \<Rightarrow> world option" where
  "router_get_config_cb w sc cmdp =
     (case (w_cmds w cmdp, w_nodes w sc) of
        (Some cmd, Some n) \<Rightarrow>
          (let copied =
                 (if ev cmd = 0 then
                    (case callback_arg cmd of
                       None \<Rightarrow> None
                     | Some a \<Rightarrow>
                         (case w_bufs w a of
                            None \<Rightarrow> None
                          | Some dst \<Rightarrow>
                              if dwlen cmd \<le> length (resp_buffer cmd) \<and> dwlen cmd \<le> length dst
                              then Some ((w_bufs w)(a \<mapsto>
                                     take (dwlen cmd) (resp_buffer cmd) @ drop (dwlen cmd) dst))
                              else None))
                  else Some (w_bufs w));
               cmd' = (if \<not> polled cmd then cmd else cmd\<lparr>poll_complete := True\<rparr>);
               res = router_get_config_cb_sc (w_ring w) n
           in case copied of
                None \<Rightarrow> None
              | Some bufs' \<Rightarrow>
                  Some (w\<lparr>w_bufs := bufs', w_cmds := (w_cmds w)(cmdp \<mapsto> cmd'),
                         w_ring := fst res, w_nodes := (w_nodes w)(sc \<mapsto> snd res)\<rparr>))
      | _ \<Rightarrow> None)"

text \<open>
  \<^verbatim>\<open>cmd->callback(sc, cmd, cmd->callback_arg)\<close>: the invocation is logged; a callback
  of the caller has no further effect in the model.
\<close>

definition cmd_callback :: "world \<Rightarrow> ptr \<Rightarrow> ptr \<Rightarrow> world option" where
  "cmd_callback w sc cmdp =
     (case w_cmds w cmdp of
        None \<Rightarrow> None
      | Some cmd \<Rightarrow>
          (case callback cmd of
             None \<Rightarrow> None
           | Some cb \<Rightarrow>
               (let w' = w\<lparr>w_calls := w_calls w @ [(cb, sc, cmdp)]\<rparr>
                in case cb of
                     Router_get_config_cb \<Rightarrow> router_get_config_cb w' sc cmdp
                   | Caller_cb k \<Rightarrow> Some w')))"

definition router_notify_intr :: "tbcfg_proto \<Rightarrow> world \<Rightarrow> ptr \<Rightarrow> 32 word list \<Rightarrow> world option" where
  "router_notify_intr K w sc rx =
     (if length rx < 3 then None
      else
        (let event_adap = be32toh (rx ! 2);
             evc = GET_NOTIFY_EVENT K event_adap
         in if evc \<in> set (notify_codes K) then
              (case w_nodes w sc of
                 None \<Rightarrow> None
               | Some n \<Rightarrow>
                   (case inflight_cmd n of
                      None \<Rightarrow> Some w
                    | Some c \<Rightarrow>
                        (case w_cmds w c of
                           None \<Rightarrow> None
                         | Some cmd \<Rightarrow>
                             cmd_callback (w\<lparr>w_cmds := (w_cmds w)(c \<mapsto> cmd\<lparr>ev := evc\<rparr>)\<rparr>) sc c)))
            else Some w))"

text \<open>
  The retry loop of \<^verbatim>\<open>tb_config_read\<close> and \<^verbatim>\<open>tb_config_write\<close> (the two loops are the
  same code). \<open>M\<close> stands for \<^verbatim>\<open>msleep\<close>: while the caller sleeps interrupt handlers
  may change the state, and the result is \<^verbatim>\<open>EWOULDBLOCK\<close> when the timeout expired.
  \<open>n\<close> is the local \<^verbatim>\<open>retries\<close> before the test \<^verbatim>\<open>retries-- >= 0\<close>.
\<close>

function tb_config_sleep_loop ::
  "(world \<Rightarrow> int \<times> world) \<Rightarrow> ptr \<Rightarrow> ptr \<Rightarrow> int \<Rightarrow> int \<Rightarrow> world \<Rightarrow> (int \<times> world) option" where
  "tb_config_sleep_loop M sc cmdp n error w =
     (if 0 \<le> n then
        (case router_schedule w sc cmdp of
           None \<Rightarrow> None
         | Some (e1, w1) \<Rightarrow>
             if e1 \<noteq> 0 then Some (e1, w1)
             else
               (case M w1 of
                  (e2, w2) \<Rightarrow>
                    if e2 \<noteq> EWOULDBLOCK then Some (e2, w2)
                    else
                      (case w_nodes w2 sc of
                         None \<Rightarrow> None
                       | Some nd \<Rightarrow>
                           tb_config_sleep_loop M sc cmdp (n - 1) e2
                             (w2\<lparr>w_nodes := (w_nodes w2)(sc \<mapsto> nd\<lparr>inflight_cmd := None\<rparr>)\<rparr>))))
      else Some (error, w))"
  by pat_completeness auto
termination
  by (relation "measure (\<lambda>(M, sc, cmdp, n, error, w). nat (n + 1))") auto

declare tb_config_sleep_loop.simps [simp del]

text \<open>
  What the blocking and polled functions do after their loop: an event code on the
  command turns the result into \<^verbatim>\<open>EINVAL\<close>, and the command is freed. The third
  component is the command as it was when it was freed; the C function does not
  return it.
\<close>

definition tb_config_finish :: "world \<Rightarrow> ptr \<Rightarrow> int \<Rightarrow> (int \<times> world \<times> router_command option) option" where
  "tb_config_finish w cmdp error =
     (case w_cmds w cmdp of
        None \<Rightarrow> None
      | Some cmd \<Rightarrow>
          Some (if ev cmd \<noteq> 0 then EINVAL else error, router_free_cmd w (Some cmdp), Some cmd))"

text \<open>
  The loops of \<^verbatim>\<open>tb_config_read_polled\<close>. \<open>D\<close> stands for \<^verbatim>\<open>DELAY(100 * 1000)\<close>,
  during which interrupt handlers may run. The inner loop returns the remaining
  \<^verbatim>\<open>timeout\<close>, which the outer loop does not reset.
\<close>

function poll_delay_loop ::
  "(world \<Rightarrow> world) \<Rightarrow> ptr \<Rightarrow> int \<Rightarrow> world \<Rightarrow> (int \<times> world) option" where
  "poll_delay_loop D cmdp t w =
     (if 0 < t then
        (let w' = D w
         in case w_cmds w' cmdp of
              None \<Rightarrow> None
            | Some cmd \<Rightarrow>
                if poll_complete cmd then Some (t, w')
                else poll_delay_loop D cmdp (t - 100000) w')
      else Some (t, w))"
  by pat_completeness auto
termination
  by (relation "measure (\<lambda>(D, cmdp, t, w). nat t)") auto

declare poll_delay_loop.simps [simp del]

function tb_config_poll_loop ::
  "(world \<Rightarrow> world) \<Rightarrow> ptr \<Rightarrow> ptr \<Rightarrow> int \<Rightarrow> int \<Rightarrow> int \<Rightarrow> world \<Rightarrow> (int \<times> world) option" where
  "tb_config_poll_loop D sc cmdp n t error w =
     (if 0 \<le> n then
        (case router_schedule w sc cmdp of
           None \<Rightarrow> None
         | Some (e1, w1) \<Rightarrow>
             if e1 \<noteq> 0 then Some (e1, w1)
             else
               (case poll_delay_loop D cmdp t w1 of
                  None \<Rightarrow> None
                | Some (t', w2) \<Rightarrow>
                    (case (w_cmds w2 cmdp, w_nodes w2 sc) of
                       (Some cmd, Some nd) \<Rightarrow>
                         if \<not> poll_complete cmd
                         then tb_config_poll_loop D sc cmdp (n - 1) t' ETIMEDOUT
                                (w2\<lparr>w_nodes := (w_nodes w2)(sc \<mapsto> nd\<lparr>inflight_cmd := None\<rparr>)\<rparr>)
                         else Some (e1, w2)
                     | _ \<Rightarrow> None)))
      else Some (error, w))"
  by pat_completeness auto
termination
  by (relation "measure (\<lambda>(D, sc, cmdp, n, t, error, w). nat (n + 1))") auto

declare tb_config_poll_loop.simps [simp del]

text \<open>
  The blocking read and write, the polled read and the asynchronous read.
\<close>

definition tb_config_read ::
  "tbcfg_proto \<Rightarrow> (world \<Rightarrow> int \<times> world) \<Rightarrow> alloc_result \<Rightarrow> world \<Rightarrow> ptr
     \<Rightarrow> nat \<Rightarrow> nat \<Rightarrow> nat \<Rightarrow> nat \<Rightarrow> ptr \<Rightarrow> (int \<times> world \<times> router_command option) option" where
  "tb_config_read K M A w sc spc adapter offset dwl buf =
     (case tb_config_read_raw K A w sc spc adapter offset dwl buf Router_get_config_cb of
        None \<Rightarrow> None
      | Some (error, w1, None) \<Rightarrow> Some (error, w1, None)
      | Some (error, w1, Some p) \<Rightarrow>
          (case w_cmds w1 p of
             None \<Rightarrow> None
           | Some cmd \<Rightarrow>
               (case tb_config_sleep_loop M sc p (retries cmd) error w1 of
                  None \<Rightarrow> None
                | Some (e, w2) \<Rightarrow> tb_config_finish w2 p e)))"

definition tb_config_write ::
  "tbcfg_proto \<Rightarrow> (world \<Rightarrow> int \<times> world) \<Rightarrow> alloc_result \<Rightarrow> world \<Rightarrow> ptr
     \<Rightarrow> nat \<Rightarrow> nat \<Rightarrow> nat \<Rightarrow> nat \<Rightarrow> ptr \<Rightarrow> (int \<times> world \<times> router_command option) option" where
  "tb_config_write K M A w sc spc adapter offset dwl buf =
     (case tb_config_write_raw K A w sc spc adapter offset dwl buf Router_get_config_cb of
        None \<Rightarrow> None
      | Some (error, w1, None) \<Rightarrow> Some (error, w1, None)
      | Some (error, w1, Some p) \<Rightarrow>
          (case w_cmds w1 p of
             None \<Rightarrow> None
           | Some cmd \<Rightarrow>
               (case tb_config_sleep_loop M sc p (retries cmd) error w1 of
                  None \<Rightarrow> None
                | Some (e, w2) \<Rightarrow> tb_config_finish w2 p e)))"

definition tb_config_read_polled ::
  "tbcfg_proto \<Rightarrow> (world \<Rightarrow> world) \<Rightarrow> alloc_result \<Rightarrow> world \<Rightarrow> ptr
     \<Rightarrow> nat \<Rightarrow> nat \<Rightarrow> nat \<Rightarrow> nat \<Rightarrow> ptr \<Rightarrow> (int \<times> world \<times> router_command option) option" where
  "tb_config_read_polled K D A w sc spc adapter offset dwl buf =
     (case tb_config_read_raw K A w sc spc adapter offset dwl buf Router_get_config_cb of
        None \<Rightarrow> None
      | Some (error, w1, None) \<Rightarrow> Some (error, w1, None)
      | Some (error, w1, Some p) \<Rightarrow>
          (case w_cmds w1 p of
             None \<Rightarrow> None
           | Some cmd \<Rightarrow>
               (let w2 = w1\<lparr>w_cmds := (w_cmds w1)(p \<mapsto> cmd\<lparr>polled := True\<rparr>)\<rparr>
                in case tb_config_poll_loop D sc p (retries cmd)
                          (int (timeout cmd) * 1000000) error w2 of
                     None \<Rightarrow> None
                   | Some (e, w3) \<Rightarrow> tb_config_finish w3 p e)))"

definition tb_config_read_async ::
  "tbcfg_proto \<Rightarrow> alloc_result \<Rightarrow> world \<Rightarrow> ptr
     \<Rightarrow> nat \<Rightarrow> nat \<Rightarrow> nat \<Rightarrow> nat \<Rightarrow> ptr \<Rightarrow> callback_fn \<Rightarrow> (int \<times> world) option" where
  "tb_config_read_async K A w sc spc adapter offset dwl buf cb =
     (case tb_config_read_raw K A w sc spc adapter offset dwl buf cb of
        None \<Rightarrow> None
      | Some (error, w1, None) \<Rightarrow> Some (error, w1)
      | Some (error, w1, Some p) \<Rightarrow> router_schedule w1 sc p)"

subsection \<open>Response and hotplug dispatch\<close>

text \<open>
  The copy loop of \<^verbatim>\<open>router_response_intr\<close>: word \<open>i\<close> of the response data, which
  follows the two route words and the attribute word of the received frame, goes to
  word \<open>i\<close> of the response buffer, for \<open>i\<close> below the bound \<open>n\<close>.
\<close>

function resp_copy_loop ::
  "nat \<Rightarrow> nat \<Rightarrow> 32 word list \<Rightarrow> 32 word list \<Rightarrow> 32 word list option" where
  "resp_copy_loop i n rx buf =
     (if i < n then
        (if 3 + i < length rx \<and> i < length buf
         then resp_copy_loop (Suc i) n rx (buf[i := be32toh (rx ! (3 + i))])
         else None)
      else Some buf)"
  by pat_completeness auto
termination
  by (relation "measure (\<lambda>(i, n, rx, buf). n - i)") auto

declare resp_copy_loop.simps [simp del]

text \<open>
  \<^verbatim>\<open>router_response_intr\<close> for a received frame \<open>rx\<close> of packet type \<open>eof\<close>.
  The bound of the copy is \<^verbatim>\<open>MIN(len, cmd->nhicmd->resp_len)\<close>.
\<close>

definition router_response_intr ::
  "tbcfg_proto \<Rightarrow> world \<Rightarrow> ptr \<Rightarrow> pdf_type \<Rightarrow> 32 word list \<Rightarrow> world option" where
  "router_response_intr K w sc eof rx =
     (if length rx < (if eof = PDF_WRITE then 2 else 3) then None
      else
        (let rt = \<lparr>hi = be32toh (rx ! 0) AND NOT 0x80000000, lo = be32toh (rx ! 1)\<rparr>;
             len = unat (drop_bit (TB_CFG_SIZE_SHIFT K)
                     (be32toh (rx ! 2) AND TB_CFG_SIZE_MASK K))
         in case router_lookup_device (w_nodes w) (w_root w) rt of
              None \<Rightarrow> None
            | Some (error, None) \<Rightarrow> Some w
            | Some (error, Some dev) \<Rightarrow>
                if error \<noteq> 0 then Some w
                else
                  (case w_nodes w dev of
                     None \<Rightarrow> None
                   | Some dn \<Rightarrow>
                       (case inflight_cmd dn of
                          None \<Rightarrow> Some w
                        | Some c \<Rightarrow>
                            (case w_cmds w c of
                               None \<Rightarrow> None
                             | Some cmd \<Rightarrow>
                                 (case (if eof = PDF_READ
                                        then resp_copy_loop 0 (min len (resp_len (nhicmd cmd)))
                                               rx (resp_buffer cmd)
                                        else Some (resp_buffer cmd)) of
                                    None \<Rightarrow> None
                                  | Some rb \<Rightarrow>
                                      (let cmd' = cmd\<lparr>resp_buffer := rb,
                                             nhicmd := (nhicmd cmd)\<lparr>resp_complete := True\<rparr>\<rparr>;
                                           w' = w\<lparr>w_cmds := (w_cmds w)(c \<mapsto> cmd')\<rparr>
                                       in if req_complete (nhicmd cmd')
                                          then cmd_callback w' dev c
                                          else Some w')))))))"

text \<open>
  \<^verbatim>\<open>router_hotplug_ack\<close> and \<^verbatim>\<open>router_hotplug_intr\<close>. The ring logs the frames as
  they are when submitted. The command of the acknowledgment is freed before
  \<^verbatim>\<open>router_hotplug_ack\<close> returns, so only the ring changes; a failed allocation or
  submission is reported by a message only. The adapter number that
  \<^verbatim>\<open>router_hotplug_intr\<close> extracts is used in its debug message only.
\<close>

record tb_cfg_hotplug =
  hp_route :: tb_route
  adapter_attrs :: "32 word"

definition router_hotplug_ack ::
  "tbcfg_proto \<Rightarrow> alloc_result \<Rightarrow> nhi_cmd_frame nhi_ring \<Rightarrow> tb_cfg_hotplug \<Rightarrow> bool
     \<Rightarrow> nhi_cmd_frame nhi_ring" where
  "router_hotplug_ack K A r event unplug =
     (case A of
        No_memory \<Rightarrow> r
      | No_frame \<Rightarrow> r
      | Allocated p f \<Rightarrow>
          (let len = SIZEOF_tb_cfg_notify K;
               ack = (frame_bzero (data f) len)
                       [0 := hi (hp_route event), 1 := lo (hp_route event),
                        2 := TB_CFG_HP_ACK K OR
                               (if unplug then TB_CFG_UPG_UNPLUG K else TB_CFG_PG_PLUG K)];
               f1 = frame_checksum K (f\<lparr>data := ack\<rparr>) len;
               f2 = f1\<lparr>pdf := PDF_NOTIFY, req_len := len,
                       frame_timeout := NHI_CMD_TIMEOUT K, frame_retries := 0\<rparr>
           in snd (nhi_tx_schedule r f2)))"

definition router_hotplug_intr ::
  "tbcfg_proto \<Rightarrow> alloc_result \<Rightarrow> nhi_cmd_frame nhi_ring \<Rightarrow> 32 word list
     \<Rightarrow> nhi_cmd_frame nhi_ring option" where
  "router_hotplug_intr K A r rx =
     (if length rx < 3 then None
      else
        (let event = \<lparr>hp_route = \<lparr>hi = be32toh (rx ! 0), lo = be32toh (rx ! 1)\<rparr>,
                      adapter_attrs = be32toh (rx ! 2)\<rparr>;
             unplug = (adapter_attrs event AND TB_CFG_UPG_UNPLUG K \<noteq> 0)
         in Some (router_hotplug_ack K A r event unplug)))"

subsection \<open>Example values\<close>

text \<open>
  Example values for the parameters, a transport frame of eight words, and an engine
  state whose only node is the root of the route resolver examples, with a caller's
  buffer of four words at address 20. \<open>notify_during_wait\<close> delivers a notification
  with event code 7 to node 10. \<open>rx_example\<close> is a read response for route 0 that
  declares five data words; \<open>hotplug_rx\<close> is a hotplug event for route \<open>0x301\<close> with
  the given attribute word.
\<close>

definition tbcfg_proto_example :: tbcfg_proto where
  "tbcfg_proto_example =
     \<lparr>TB_CONFIG_ADDR = (\<lambda>sq spc adapter dwl offset.
          word_of_nat (offset + dwl * 2 ^ 13 + adapter * 2 ^ 19 + spc * 2 ^ 25 + sq * 2 ^ 27)),
      tb_calc_crc = (\<lambda>d len. 0),
      NHI_CMD_TIMEOUT = 15, NHI_RING0_FRAME_SIZE = 32,
      TB_CFG_SIZE_MASK = 0x7e000, TB_CFG_SIZE_SHIFT = 13,
      GET_NOTIFY_EVENT = (\<lambda>x. x AND 0xff),
      notify_codes = [0, 1, 2, 4, 8, 9, 11, 12, 13, 14, 15, 7, 32],
      TB_CFG_HP_ACK = 7, TB_CFG_UPG_UNPLUG = 0x80000000, TB_CFG_PG_PLUG = 0x40000000,
      TB_CFG_ADPT_MASK = 0x3f,
      SIZEOF_tb_cfg_read = 16, SIZEOF_tb_cfg_write = 16, SIZEOF_tb_cfg_notify = 16\<rparr>"

definition frame_example :: nhi_cmd_frame where
  "frame_example = \<lparr>data = [0, 0, 0, 0, 0, 0, 0, 0], pdf = PDF_READ, req_len = 0, frame_timeout = 0,
     frame_retries = 0, resp_len = 0, req_complete = False, resp_complete = False\<rparr>"

definition world_example :: world where
  "world_example = \<lparr>w_root = Some 10, w_nodes = [10 \<mapsto> root_example],
     w_ring = \<lparr>tx_script = [], tx_frames = []\<rparr>, w_cmds = (\<lambda>p. None),
     w_bufs = [20 \<mapsto> [0, 0, 0, 0]], w_calls = []\<rparr>"

definition notify_during_wait :: "world \<Rightarrow> world" where
  "notify_during_wait x =
     (case router_notify_intr tbcfg_proto_example x 10 [0, 0, htobe32 7] of
        None \<Rightarrow> x | Some x' \<Rightarrow> x')"

definition cmd_example :: router_command where
  "cmd_example = \<lparr>cmd_sc = Some 10, nhicmd = frame_example, polled = False,
     poll_complete = False, callback = Some Router_get_config_cb, callback_arg = Some 20,
     dwlen = 2, timeout = 2, retries = 3, ev = 7, resp_buffer = [5, 6, 7, 8]\<rparr>"

definition rx_example :: "32 word list" where
  "rx_example = map htobe32 [0x80000000, 0, 0xA000, 0x11, 0x22, 0x33, 0x44, 0x55, 0x66]"

definition hotplug_rx :: "32 word \<Rightarrow> 32 word list" where
  "hotplug_rx attrs = [htobe32 0, htobe32 0x301, htobe32 attrs]"

section \<open>Verified properties\<close>

subsection \<open>The drain loop\<close>

lemma router_schedule_loop_occupied:
  assumes "inflight_cmd sc \<noteq> None"
  shows "router_schedule_loop r sc e = (e, r, sc)"
proof -
  have "\<not> (inflight_cmd sc = None \<and> cmd_queue sc \<noteq> [])"
    using assms by simp
  then show ?thesis
    by (subst router_schedule_loop.simps) (simp only: if_False)
qed

lemma router_schedule_loop_idle:
  assumes "cmd_queue sc = []"
  shows "router_schedule_loop r sc e = (e, r, sc)"
proof -
  have "\<not> (inflight_cmd sc = None \<and> cmd_queue sc \<noteq> [])"
    using assms by simp
  then show ?thesis
    by (subst router_schedule_loop.simps) (simp only: if_False)
qed

lemma router_schedule_loop_head:
  assumes "inflight_cmd sc = None" and "cmd_queue sc = c # rest"
  shows "router_schedule_loop r sc e =
     (let err = fst (nhi_tx_schedule r c); r' = snd (nhi_tx_schedule r c)
      in if err = 0 then (0, r', sc\<lparr>cmd_queue := rest, inflight_cmd := Some c\<rparr>)
         else if err = EBUSY then (0, r', sc\<lparr>cmd_queue := c # rest\<rparr>)
         else (err, r', sc\<lparr>cmd_queue := rest\<rparr>))"
proof -
  have g: "inflight_cmd sc = None \<and> cmd_queue sc \<noteq> []"
    using assms by simp
  have n: "sc\<lparr>cmd_queue := rest, inflight_cmd := None\<rparr> = sc\<lparr>cmd_queue := rest\<rparr>"
      "sc\<lparr>cmd_queue := c # rest, inflight_cmd := None\<rparr> = sc\<lparr>cmd_queue := c # rest\<rparr>"
    using assms(1) by simp_all
  show ?thesis
    apply (subst router_schedule_loop.simps)
    apply (simp only: g if_True)
    apply (simp add: assms(2) Let_def router_schedule_loop_occupied n)
    done
qed

lemma nhi_tx_schedule_cases:
  "(fst (nhi_tx_schedule r f) = 0 \<and> tx_frames (snd (nhi_tx_schedule r f)) = tx_frames r @ [f])
   \<or> (fst (nhi_tx_schedule r f) \<noteq> 0 \<and> tx_frames (snd (nhi_tx_schedule r f)) = tx_frames r)"
  by (simp add: nhi_tx_schedule_def split: list.split)

lemma router_schedule_loop_slot:
  "(tx_frames (fst (snd (router_schedule_loop r sc e))) = tx_frames r
      \<and> (inflight_cmd (snd (snd (router_schedule_loop r sc e))) = inflight_cmd sc ))
   \<or> (inflight_cmd sc = None
      \<and> (\<exists>c. tx_frames (fst (snd (router_schedule_loop r sc e))) = tx_frames r @ [c]
             \<and> inflight_cmd (snd (snd (router_schedule_loop r sc e))) = Some c))"
proof (cases "inflight_cmd sc = None \<and> cmd_queue sc \<noteq> []")
  case False
  then have "router_schedule_loop r sc e = (e, r, sc)"
    using router_schedule_loop_occupied router_schedule_loop_idle by blast
  then show ?thesis by simp
next
  case True
  then obtain c rest where q: "cmd_queue sc = c # rest"
    by (cases "cmd_queue sc") auto
  from True have i: "inflight_cmd sc = None" by simp
  show ?thesis
    using nhi_tx_schedule_cases [of r c] 
    by (auto simp add: router_schedule_loop_head [OF i q] Let_def i)
qed


lemma router_schedule_locked_slot:
  "(tx_frames (fst (snd (router_schedule_locked r sc cmd))) = tx_frames r
      \<and> inflight_cmd (snd (snd (router_schedule_locked r sc cmd))) = inflight_cmd sc)
   \<or> (inflight_cmd sc = None
      \<and> (\<exists>c. tx_frames (fst (snd (router_schedule_locked r sc cmd))) = tx_frames r @ [c]
             \<and> inflight_cmd (snd (snd (router_schedule_locked r sc cmd))) = Some c))"
proof (cases cmd)
  case None
  then show ?thesis
    using router_schedule_loop_slot [of r sc 0]
    by (simp add: router_schedule_locked_def)
next
  case (Some c)
  then show ?thesis
    using router_schedule_loop_slot [of r "sc\<lparr>cmd_queue := cmd_queue sc @ [c]\<rparr>" 0]
    by (simp add: router_schedule_locked_def)
qed

lemma sched_step_count:
  "length (tx_frames (fst (sched_step x (r, sc)))) + occupancy sc
     \<le> length (tx_frames r) + clears [x] + occupancy (snd (sched_step x (r, sc)))"
proof (cases x)
  case (Enqueue c)
  then show ?thesis
    using router_schedule_locked_slot [of r sc "Some c"]
    by (auto simp add: occupancy_def)
next
  case Drain
  then show ?thesis
    using router_schedule_locked_slot [of r sc None]
    by (auto simp add: occupancy_def)
next
  case Completion
  then show ?thesis
    using router_schedule_locked_slot [of r "sc\<lparr>inflight_cmd := None\<rparr>" None]
    by (auto simp add: occupancy_def router_get_config_cb_sc_def Let_def split: option.split)
next
  case Timeout_clear
  then show ?thesis
    by (simp add: occupancy_def split: option.split)
qed

lemma clears_Cons: "clears (x # xs) = clears [x] + clears xs"
  by (cases x) simp_all

lemma sched_run_count:
  "length (tx_frames (fst (sched_run ops s))) + occupancy (snd s)
     \<le> length (tx_frames (fst s)) + clears ops + occupancy (snd (sched_run ops s))"
proof (induction ops arbitrary: s)
  case Nil
  show ?case by simp
next
  case (Cons x xs)
  obtain r sc where s: "s = (r, sc)" by (cases s)
  have a: "length (tx_frames (fst (sched_step x s))) + occupancy (snd s)
     \<le> length (tx_frames (fst s)) + clears [x] + occupancy (snd (sched_step x s))"
    using sched_step_count [of x r sc] by (simp add: s)
  have b: "length (tx_frames (fst (sched_run xs (sched_step x s)))) + occupancy (snd (sched_step x s))
     \<le> length (tx_frames (fst (sched_step x s))) + clears xs
        + occupancy (snd (sched_run xs (sched_step x s)))"
    by (rule Cons.IH)
  have c: "clears (x # xs) = clears [x] + clears xs"
    by (rule clears_Cons)
  show ?case using a b c by simp
qed

lemma sched_step_occupied:
  assumes "inflight_cmd sc \<noteq> None" and "x = Drain \<or> x \<in> range Enqueue"
  shows "sched_step x (r, sc) =
           (r, sc\<lparr>cmd_queue := cmd_queue sc @ (case x of Enqueue c \<Rightarrow> [c] | _ \<Rightarrow> [])\<rparr>)"
  using assms
  by (auto simp add: router_schedule_locked_def router_schedule_loop_occupied)

subsection \<open>The capability walk\<close>

lemma cyclic_next_cap:
  "next_cap cap = 1 \<Longrightarrow> space cap = 1 \<Longrightarrow>
   tb_config_next_cap tbcfg_example cyclic_reader s cap
     = (0, cap\<lparr>cap_id := 1, next_cap := 1, current_cap := 1\<rparr>, s)"
  by (simp add: tb_config_next_cap_def cyclic_reader_def tbcfg_example_def)

lemma cyclic_walk_no_result:
  "tb_config_find_cap_loop K rd wc wv cap s = Some y \<Longrightarrow>
   \<not> (K = tbcfg_example \<and> rd = cyclic_reader \<and> wc = 4 \<and> wv = 0
      \<and> next_cap cap = 1 \<and> space cap = 1 \<and> cap_id cap \<noteq> 4)"
proof (induction K rd wc wv cap s y
    rule: tb_config_find_cap_loop.raw_induct [rotated 1, consumes 1])
  case (1 f K rd wc wv cap s y)
  show ?case
  proof
    assume a: "K = tbcfg_example \<and> rd = cyclic_reader \<and> wc = 4 \<and> wv = 0
      \<and> next_cap cap = 1 \<and> space cap = 1 \<and> cap_id cap \<noteq> 4"
    have st: "tb_config_next_cap K rd s cap
        = (0, cap\<lparr>cap_id := 1, next_cap := 1, current_cap := 1\<rparr>, s)"
      using a cyclic_next_cap [of cap s] by simp
    have go: "cap_id cap \<noteq> wc \<or> vsc_id cap \<noteq> wv"
      using a by simp
    have inside: "\<not> (next_cap cap = 0 \<or> TB_CFG_CAP_OFFSET_MAX K < next_cap cap)"
      using a by (simp add: tbcfg_example_def)
    have "f K rd wc wv (cap\<lparr>cap_id := 1, next_cap := 1, current_cap := 1\<rparr>) s = Some y"
      using "1.hyps" by (simp only: go inside st if_True if_False prod.case) simp
    from "1.IH" [OF this] a show False by simp
  qed
qed

lemma find_cap_loop_stop:
  assumes "cap_id cap \<noteq> wc \<or> vsc_id cap \<noteq> wv"
    and "next_cap cap = 0 \<or> TB_CFG_CAP_OFFSET_MAX K < next_cap cap"
  shows "tb_config_find_cap_loop K rd wc wv cap s = Some (EINVAL, cap, s)"
  using assms by (subst tb_config_find_cap_loop.simps) simp

lemma find_cap_loop_match:
  assumes "\<not> (cap_id cap \<noteq> wc \<or> vsc_id cap \<noteq> wv)"
  shows "tb_config_find_cap_loop K rd wc wv cap s = Some (0, cap, s)"
  using assms by (subst tb_config_find_cap_loop.simps) simp

lemma find_cap_loop_end:
  assumes "next_cap cap = 0 \<or> TB_CFG_CAP_OFFSET_MAX K < next_cap cap"
  shows "\<exists>y. tb_config_find_cap_loop K rd wc wv cap s = Some y"
proof (cases "cap_id cap \<noteq> wc \<or> vsc_id cap \<noteq> wv")
  case True
  then show ?thesis using assms by (simp add: find_cap_loop_stop)
next
  case False
  then show ?thesis by (simp add: find_cap_loop_match)
qed

lemma find_cap_loop_terminates:
  assumes asc: "chain_ascends K rd"
  shows "\<exists>y. tb_config_find_cap_loop K rd wc wv cap s = Some y"
proof (induction "Suc (TB_CFG_CAP_OFFSET_MAX K) - next_cap cap" arbitrary: cap s
    rule: less_induct)
  case less
  show ?case
  proof (cases "cap_id cap \<noteq> wc \<or> vsc_id cap \<noteq> wv")
    case False
    then show ?thesis by (simp add: find_cap_loop_match)
  next
    case go: True
    show ?thesis
    proof (cases "next_cap cap = 0 \<or> TB_CFG_CAP_OFFSET_MAX K < next_cap cap")
      case True
      then show ?thesis by (rule find_cap_loop_end)
    next
      case inside: False
      obtain e cap' s' where st: "tb_config_next_cap K rd s cap = (e, cap', s')"
        by (cases "tb_config_next_cap K rd s cap") auto
      have unf: "tb_config_find_cap_loop K rd wc wv cap s =
          (if e \<noteq> 0 then Some (0, cap', s')
           else tb_config_find_cap_loop K rd wc wv cap' s')"
        using go inside by (subst tb_config_find_cap_loop.simps) (simp add: st)
      show ?thesis
      proof (cases "e = 0")
        case False
        then show ?thesis by (simp add: unf)
      next
        case True
        then have "next_cap cap' = 0 \<or> next_cap cap < next_cap cap'"
          using asc [unfolded chain_ascends_def, rule_format, of s cap] st by simp
        then show ?thesis
        proof
          assume "next_cap cap' = 0"
          then show ?thesis using True unf find_cap_loop_end [of cap' K rd wc wv s'] by simp
        next
          assume "next_cap cap < next_cap cap'"
          then have "Suc (TB_CFG_CAP_OFFSET_MAX K) - next_cap cap'
              < Suc (TB_CFG_CAP_OFFSET_MAX K) - next_cap cap"
            using inside by arith
          from less [OF this] show ?thesis using True unf by simp
        qed
      qed
    qed
  qed
qed


lemma ascending_reader_ascends: "chain_ascends tbcfg_example ascending_reader"
  by (simp add: chain_ascends_def tb_config_next_cap_def ascending_reader_def
      tbcfg_example_def Let_def)

subsection \<open>Retry loops\<close>

lemma nhi_tx_schedule_accepts:
  assumes "\<forall>e\<in>set (tx_script r). e = 0"
  shows "fst (nhi_tx_schedule r f) = 0
    \<and> tx_frames (snd (nhi_tx_schedule r f)) = tx_frames r @ [f]
    \<and> (\<forall>e\<in>set (tx_script (snd (nhi_tx_schedule r f))). e = 0)"
  using assms by (cases "tx_script r") (simp_all add: nhi_tx_schedule_def)

lemma router_schedule_idle:
  assumes "w_nodes w sc = Some n" and "inflight_cmd n = None" and "cmd_queue n = []"
    and "\<forall>e\<in>set (tx_script (w_ring w)). e = 0"
  shows "\<exists>w1. router_schedule w sc p = Some (0, w1)
    \<and> w_nodes w1 sc = Some (n\<lparr>inflight_cmd := Some p\<rparr>)
    \<and> tx_frames (w_ring w1) = tx_frames (w_ring w) @ [p]
    \<and> (\<forall>e\<in>set (tx_script (w_ring w1)). e = 0)
    \<and> w_cmds w1 = w_cmds w \<and> w_bufs w1 = w_bufs w"
proof -
  let ?n1 = "n\<lparr>cmd_queue := [p]\<rparr>"
  have i: "inflight_cmd ?n1 = None" using assms(2) by simp
  have q: "cmd_queue ?n1 = p # []" by simp
  have r: "?n1\<lparr>cmd_queue := [], inflight_cmd := Some p\<rparr> = n\<lparr>inflight_cmd := Some p\<rparr>"
    using assms(3) by simp
  note a = nhi_tx_schedule_accepts [OF assms(4), of p]
  have "router_schedule_locked (w_ring w) n (Some p) = router_schedule_loop (w_ring w) ?n1 0"
    using assms(3) by (simp add: router_schedule_locked_def)
  also have "\<dots> = (0, snd (nhi_tx_schedule (w_ring w) p), n\<lparr>inflight_cmd := Some p\<rparr>)"
    using a r by (simp add: router_schedule_loop_head [OF i q] Let_def)
  finally have l: "router_schedule_locked (w_ring w) n (Some p)
      = (0, snd (nhi_tx_schedule (w_ring w) p), n\<lparr>inflight_cmd := Some p\<rparr>)" .
  show ?thesis
    using a by (simp add: router_schedule_def assms(1) l)
qed

lemma tb_config_sleep_loop_done:
  "n < 0 \<Longrightarrow> tb_config_sleep_loop M sc p n e w = Some (e, w)"
  by (subst tb_config_sleep_loop.simps) simp

lemma tb_config_sleep_loop_timeouts:
  assumes M: "\<forall>x. M x = (EWOULDBLOCK, x)"
    and n: "inflight_cmd n = None" "cmd_queue n = []"
  shows "w_nodes w sc = Some n \<Longrightarrow> \<forall>e\<in>set (tx_script (w_ring w)). e = 0 \<Longrightarrow>
    \<exists>w'. tb_config_sleep_loop M sc p (int k) e w = Some (EWOULDBLOCK, w')
      \<and> w_nodes w' sc = Some n
      \<and> tx_frames (w_ring w') = tx_frames (w_ring w) @ replicate (Suc k) p
      \<and> (\<forall>e\<in>set (tx_script (w_ring w')). e = 0)
      \<and> w_cmds w' = w_cmds w \<and> w_bufs w' = w_bufs w"
proof (induction k arbitrary: w e)
  case 0
  from router_schedule_idle [OF "0.prems"(1) n "0.prems"(2), of p]
  obtain w1 where w1: "router_schedule w sc p = Some (0, w1)"
    "w_nodes w1 sc = Some (n\<lparr>inflight_cmd := Some p\<rparr>)"
    "tx_frames (w_ring w1) = tx_frames (w_ring w) @ [p]"
    "\<forall>e\<in>set (tx_script (w_ring w1)). e = 0"
    "w_cmds w1 = w_cmds w" "w_bufs w1 = w_bufs w" by blast
  have c: "n\<lparr>inflight_cmd := None\<rparr> = n" using n(1) by simp
  show ?case
    apply (subst tb_config_sleep_loop.simps)
    apply (simp add: w1 M tb_config_sleep_loop_done c)
    done
next
  case (Suc k)
  from router_schedule_idle [OF Suc.prems(1) n Suc.prems(2), of p]
  obtain w1 where w1: "router_schedule w sc p = Some (0, w1)"
    "w_nodes w1 sc = Some (n\<lparr>inflight_cmd := Some p\<rparr>)"
    "tx_frames (w_ring w1) = tx_frames (w_ring w) @ [p]"
    "\<forall>e\<in>set (tx_script (w_ring w1)). e = 0"
    "w_cmds w1 = w_cmds w" "w_bufs w1 = w_bufs w" by blast
  have c: "n\<lparr>inflight_cmd := None\<rparr> = n" using n(1) by simp
  let ?w2 = "w1\<lparr>w_nodes := (w_nodes w1)(sc \<mapsto> n)\<rparr>"
  have "w_nodes ?w2 sc = Some n" by simp
  moreover have "\<forall>e\<in>set (tx_script (w_ring ?w2)). e = 0" using w1(4) by simp
  ultimately obtain w' where w': "tb_config_sleep_loop M sc p (int k) EWOULDBLOCK ?w2
        = Some (EWOULDBLOCK, w')"
      "w_nodes w' sc = Some n"
      "tx_frames (w_ring w') = tx_frames (w_ring ?w2) @ replicate (Suc k) p"
      "\<forall>e\<in>set (tx_script (w_ring w')). e = 0"
      "w_cmds w' = w_cmds ?w2" "w_bufs w' = w_bufs ?w2"
    using Suc.IH [of ?w2 EWOULDBLOCK] by blast
  have unf: "tb_config_sleep_loop M sc p (int (Suc k)) e w
      = tb_config_sleep_loop M sc p (int k) EWOULDBLOCK ?w2"
    apply (subst tb_config_sleep_loop.simps)
    apply (simp add: w1 M c)
    done
  show ?case
    apply (subst unf)
    using w' w1 apply (simp add: replicate_app_Cons_same)
    done
qed


lemma poll_delay_loop_idle:
  assumes D: "\<forall>x. D x = x" and c: "w_cmds w p = Some c" "\<not> poll_complete c"
  shows "\<exists>t'. poll_delay_loop D p t w = Some (t', w)"
proof (induction "nat t" arbitrary: t rule: less_induct)
  case less
  show ?case
  proof (cases "0 < t")
    case False
    then show ?thesis by (subst poll_delay_loop.simps) simp
  next
    case True
    then have "nat (t - 100000) < nat t" by simp
    from less [OF this] obtain t' where "poll_delay_loop D p (t - 100000) w = Some (t', w)"
      by blast
    then show ?thesis
      using True D c by (subst poll_delay_loop.simps) (simp add: Let_def)
  qed
qed

lemma tb_config_poll_loop_done:
  "n < 0 \<Longrightarrow> tb_config_poll_loop D sc p n t e w = Some (e, w)"
  by (subst tb_config_poll_loop.simps) simp

lemma tb_config_poll_loop_timeouts:
  assumes D: "\<forall>x. D x = x"
    and n: "inflight_cmd n = None" "cmd_queue n = []"
    and c: "\<not> poll_complete c"
  shows "w_nodes w sc = Some n \<Longrightarrow> w_cmds w p = Some c \<Longrightarrow>
    \<forall>e\<in>set (tx_script (w_ring w)). e = 0 \<Longrightarrow>
    \<exists>w'. tb_config_poll_loop D sc p (int k) t e w = Some (ETIMEDOUT, w')
      \<and> w_nodes w' sc = Some n
      \<and> tx_frames (w_ring w') = tx_frames (w_ring w) @ replicate (Suc k) p
      \<and> (\<forall>e\<in>set (tx_script (w_ring w')). e = 0)
      \<and> w_cmds w' = w_cmds w \<and> w_bufs w' = w_bufs w"
proof (induction k arbitrary: w e t)
  case 0
  from router_schedule_idle [OF "0.prems"(1) n "0.prems"(3), of p]
  obtain w1 where w1: "router_schedule w sc p = Some (0, w1)"
    "w_nodes w1 sc = Some (n\<lparr>inflight_cmd := Some p\<rparr>)"
    "tx_frames (w_ring w1) = tx_frames (w_ring w) @ [p]"
    "\<forall>e\<in>set (tx_script (w_ring w1)). e = 0"
    "w_cmds w1 = w_cmds w" "w_bufs w1 = w_bufs w" by blast
  have c1: "w_cmds w1 p = Some c" using w1(5) "0.prems"(2) by simp
  from poll_delay_loop_idle [OF D c1 c, of t]
  obtain t' where t': "poll_delay_loop D p t w1 = Some (t', w1)" by blast
  have cl: "n\<lparr>inflight_cmd := None\<rparr> = n" using n(1) by simp
  show ?case
    apply (subst tb_config_poll_loop.simps)
    apply (simp add: w1 t' "0.prems"(2) c tb_config_poll_loop_done cl)
    done
next
  case (Suc k)
  from router_schedule_idle [OF Suc.prems(1) n Suc.prems(3), of p]
  obtain w1 where w1: "router_schedule w sc p = Some (0, w1)"
    "w_nodes w1 sc = Some (n\<lparr>inflight_cmd := Some p\<rparr>)"
    "tx_frames (w_ring w1) = tx_frames (w_ring w) @ [p]"
    "\<forall>e\<in>set (tx_script (w_ring w1)). e = 0"
    "w_cmds w1 = w_cmds w" "w_bufs w1 = w_bufs w" by blast
  have c1: "w_cmds w1 p = Some c" using w1(5) Suc.prems(2) by simp
  from poll_delay_loop_idle [OF D c1 c, of t]
  obtain t' where t': "poll_delay_loop D p t w1 = Some (t', w1)" by blast
  have cl: "n\<lparr>inflight_cmd := None\<rparr> = n" using n(1) by simp
  let ?w2 = "w1\<lparr>w_nodes := (w_nodes w1)(sc \<mapsto> n)\<rparr>"
  have "w_nodes ?w2 sc = Some n" by simp
  moreover have "w_cmds ?w2 p = Some c" using c1 by simp
  moreover have "\<forall>e\<in>set (tx_script (w_ring ?w2)). e = 0" using w1(4) by simp
  ultimately obtain w' where w': "tb_config_poll_loop D sc p (int k) t' ETIMEDOUT ?w2
        = Some (ETIMEDOUT, w')"
      "w_nodes w' sc = Some n"
      "tx_frames (w_ring w') = tx_frames (w_ring ?w2) @ replicate (Suc k) p"
      "\<forall>e\<in>set (tx_script (w_ring w')). e = 0"
      "w_cmds w' = w_cmds ?w2" "w_bufs w' = w_bufs ?w2"
    using Suc.IH [of ?w2 t' ETIMEDOUT] by blast
  have unf: "tb_config_poll_loop D sc p (int (Suc k)) t e w
      = tb_config_poll_loop D sc p (int k) t' ETIMEDOUT ?w2"
    apply (subst tb_config_poll_loop.simps)
    apply (simp add: w1 t' Suc.prems(2) c cl)
    done
  show ?case
    apply (subst unf)
    using w' w1 apply (simp add: replicate_app_Cons_same)
    done
qed

lemma tb_config_read_raw_allocated:
  assumes "w_nodes w sc = Some n"
  shows "\<exists>cmd. tb_config_read_raw K (Allocated p f) w sc spc adapter offset dwl buf cb
        = Some (0, w\<lparr>w_cmds := (w_cmds w)(p \<mapsto> cmd)\<rparr>, Some p)
      \<and> retries cmd = CFG_DEFAULT_RETRIES \<and> timeout cmd = CFG_DEFAULT_TIMEOUT
      \<and> ev cmd = 0 \<and> \<not> polled cmd \<and> \<not> poll_complete cmd
      \<and> callback cmd = Some cb \<and> callback_arg cmd = Some buf \<and> dwlen cmd = dwl"
  using assms
  apply (simp add: tb_config_read_raw_def router_alloc_cmd_def router_prepare_read_def Let_def)
  apply (rule exI)
  apply (rule conjI)
   apply (rule refl)
  apply simp
  done

lemma tb_config_write_raw_allocated:
  assumes "w_nodes w sc = Some n" and "w_bufs w buf = Some src" and "dwl \<le> length src"
    and "3 + dwl \<le> length (data f)"
  shows "\<exists>cmd. tb_config_write_raw K (Allocated p f) w sc spc adapter offset dwl buf cb
        = Some (0, w\<lparr>w_cmds := (w_cmds w)(p \<mapsto> cmd)\<rparr>, Some p)
      \<and> retries cmd = CFG_DEFAULT_RETRIES \<and> timeout cmd = CFG_DEFAULT_TIMEOUT
      \<and> ev cmd = 0 \<and> \<not> polled cmd \<and> \<not> poll_complete cmd
      \<and> callback cmd = Some cb \<and> callback_arg cmd = Some buf \<and> dwlen cmd = dwl"
  using assms
  apply (simp add: tb_config_write_raw_def router_alloc_cmd_def router_prepare_write_def Let_def)
  apply (rule exI)
  apply (rule conjI)
   apply (rule refl)
  apply simp
  done

lemma tb_config_sleep_loop_woken:
  assumes "router_schedule w sc p = Some (0, w1)" and "M w1 = (0, w2)" and "0 \<le> n"
  shows "tb_config_sleep_loop M sc p n e w = Some (0, w2)"
  using assms by (subst tb_config_sleep_loop.simps) (simp add: EWOULDBLOCK_def)

lemma tb_config_poll_loop_woken:
  assumes "router_schedule w sc p = Some (0, w1)"
    and "w_cmds (D w1) p = Some c" and "poll_complete c"
    and "w_nodes (D w1) sc = Some nd" and "0 \<le> n" and "0 < t"
  shows "tb_config_poll_loop D sc p n t e w = Some (0, D w1)"
proof -
  have d: "poll_delay_loop D p t w1 = Some (t, D w1)"
    using assms(2,3,6) by (subst poll_delay_loop.simps) (simp add: Let_def)
  show ?thesis
    using assms by (subst tb_config_poll_loop.simps) (simp add: d)
qed

subsection \<open>Event codes\<close>

lemma tb_config_finish_event:
  "tb_config_finish w p e = Some (err, w', Some c) \<Longrightarrow> ev c \<noteq> 0 \<Longrightarrow> err = EINVAL"
  by (cases "w_cmds w p") (simp_all add: tb_config_finish_def)

lemma tb_config_read_finish:
  "tb_config_read K M A w sc spc adapter offset dwl buf = Some (err, w', Some c) \<Longrightarrow>
   \<exists>w2 p e. tb_config_finish w2 p e = Some (err, w', Some c)"
  unfolding tb_config_read_def
  by (simp split: option.splits prod.splits) blast

lemma tb_config_write_finish:
  "tb_config_write K M A w sc spc adapter offset dwl buf = Some (err, w', Some c) \<Longrightarrow>
   \<exists>w2 p e. tb_config_finish w2 p e = Some (err, w', Some c)"
  unfolding tb_config_write_def
  by (simp split: option.splits prod.splits) blast

lemma tb_config_read_polled_finish:
  "tb_config_read_polled K D A w sc spc adapter offset dwl buf = Some (err, w', Some c) \<Longrightarrow>
   \<exists>w2 p e. tb_config_finish w2 p e = Some (err, w', Some c)"
  unfolding tb_config_read_polled_def Let_def
  by (simp split: option.splits prod.splits) blast

lemma router_get_config_cb_event:
  assumes "w_cmds w p = Some cmd" and "ev cmd \<noteq> 0"
    and "router_get_config_cb w sc p = Some w''"
  shows "w_bufs w'' = w_bufs w"
proof (cases "w_nodes w sc")
  case None
  then show ?thesis using assms by (simp add: router_get_config_cb_def)
next
  case (Some n)
  then show ?thesis using assms by (simp add: router_get_config_cb_def Let_def) auto
qed

subsection \<open>Evaluation of the examples\<close>

lemmas example_defs = tbcfg_proto_example_def frame_example_def world_example_def
  root_example_def sc_example_def

lemmas engine_defs = tb_config_read_raw_def tb_config_write_raw_def router_alloc_cmd_def
  router_prepare_read_def router_prepare_write_def router_schedule_def
  router_schedule_locked_def router_schedule_loop.simps nhi_tx_schedule_def
  tb_config_finish_def router_free_cmd_def router_notify_intr_def cmd_callback_def
  router_get_config_cb_def router_get_config_cb_sc_def be32toh_def htobe32_def

lemma replicate_words:
  "replicate 4 (0::32 word) = [0, 0, 0, 0]"
  "replicate 8 (0::32 word) = [0, 0, 0, 0, 0, 0, 0, 0]"
  by (simp_all add: numeral_eq_Suc)

lemma list_update_Cons_numeral:
  "(x # xs)[numeral k := y] = x # xs[pred_numeral k := y]"
  by (simp add: numeral_eq_Suc)

lemma read_notified:
  "\<exists>w' c. tb_config_read tbcfg_proto_example (\<lambda>x. (0, notify_during_wait x))
          (Allocated 30 frame_example) world_example 10 2 0 0 2 20
        = Some (EINVAL, w', Some c) \<and> ev c = 7 \<and> w_bufs w' 20 = Some [0, 0, 0, 0]"
proof -
  define wa where "wa = fst (snd (the (tb_config_read_raw tbcfg_proto_example
      (Allocated 30 frame_example) world_example 10 2 0 0 2 20 Router_get_config_cb)))"
  define wb where "wb = snd (the (router_schedule wa 10 30))"
  have a: "tb_config_read_raw tbcfg_proto_example
      (Allocated 30 frame_example) world_example 10 2 0 0 2 20 Router_get_config_cb
      = Some (0, wa, Some 30)"
    unfolding wa_def by (simp add: engine_defs example_defs Let_def)
  have a': "map_option retries (w_cmds wa 30) = Some 3"
    unfolding wa_def by (simp add: engine_defs example_defs Let_def CFG_DEFAULT_RETRIES_def)
  have b: "router_schedule wa 10 30 = Some (0, wb)"
    unfolding wb_def wa_def by (simp add: engine_defs example_defs Let_def)
  have c: "map_option ev (w_cmds (notify_during_wait wb) 30) = Some 7
      \<and> w_bufs (notify_during_wait wb) 20 = Some [0, 0, 0, 0]"
    unfolding wb_def wa_def notify_during_wait_def
    by (simp add: engine_defs example_defs Let_def)
  obtain cmd where cmd: "w_cmds wa 30 = Some cmd" "retries cmd = 3"
    using a' by auto
  obtain cf where cf: "w_cmds (notify_during_wait wb) 30 = Some cf" "ev cf = 7"
    using c by auto
  have l: "tb_config_sleep_loop (\<lambda>x. (0, notify_during_wait x)) 10 30 3 0 wa
      = Some (0, notify_during_wait wb)"
    by (rule tb_config_sleep_loop_woken [OF b]) simp_all
  show ?thesis
    using c by (simp add: tb_config_read_def a cmd l tb_config_finish_def cf router_free_cmd_def)
qed

lemma polled_notified:
  "\<exists>w' c. tb_config_read_polled tbcfg_proto_example notify_during_wait
          (Allocated 30 frame_example) world_example 10 2 0 0 2 20
        = Some (EINVAL, w', Some c) \<and> ev c = 7 \<and> w_bufs w' 20 = Some [0, 0, 0, 0]"
proof -
  define wa where "wa = fst (snd (the (tb_config_read_raw tbcfg_proto_example
      (Allocated 30 frame_example) world_example 10 2 0 0 2 20 Router_get_config_cb)))"
  define wp where "wp = wa\<lparr>w_cmds := (w_cmds wa)(30 \<mapsto> (the (w_cmds wa 30))\<lparr>polled := True\<rparr>)\<rparr>"
  define wb where "wb = snd (the (router_schedule wp 10 30))"
  have a: "tb_config_read_raw tbcfg_proto_example
      (Allocated 30 frame_example) world_example 10 2 0 0 2 20 Router_get_config_cb
      = Some (0, wa, Some 30)"
    unfolding wa_def by (simp add: engine_defs example_defs Let_def)
  have a': "map_option retries (w_cmds wa 30) = Some 3
      \<and> map_option timeout (w_cmds wa 30) = Some 2"
    unfolding wa_def
    by (simp add: engine_defs example_defs Let_def CFG_DEFAULT_RETRIES_def
        CFG_DEFAULT_TIMEOUT_def)
  have b: "router_schedule wp 10 30 = Some (0, wb)"
    unfolding wb_def wp_def wa_def by (simp add: engine_defs example_defs Let_def)
  have c: "map_option ev (w_cmds (notify_during_wait wb) 30) = Some 7
      \<and> map_option poll_complete (w_cmds (notify_during_wait wb) 30) = Some True
      \<and> w_nodes (notify_during_wait wb) 10 \<noteq> None
      \<and> w_bufs (notify_during_wait wb) 20 = Some [0, 0, 0, 0]"
    unfolding wb_def wp_def wa_def notify_during_wait_def
    by (simp add: engine_defs example_defs Let_def)
  obtain cmd where cmd: "w_cmds wa 30 = Some cmd" "retries cmd = 3" "timeout cmd = 2"
    using a' by auto
  obtain cf where cf: "w_cmds (notify_during_wait wb) 30 = Some cf" "ev cf = 7"
      "poll_complete cf"
    using c by auto
  obtain nd where nd: "w_nodes (notify_during_wait wb) 10 = Some nd"
    using c by auto
  have wp: "wa\<lparr>w_cmds := (w_cmds wa)(30 \<mapsto> cmd\<lparr>polled := True\<rparr>)\<rparr> = wp"
    by (simp add: wp_def cmd)
  have l: "tb_config_poll_loop notify_during_wait 10 30 3 2000000 0 wp
      = Some (0, notify_during_wait wb)"
    by (rule tb_config_poll_loop_woken [where D = notify_during_wait, OF b cf(1) cf(3) nd])
      simp_all
  show ?thesis
    using c
    by (simp add: tb_config_read_polled_def a cmd wp l tb_config_finish_def cf
        router_free_cmd_def Let_def)
qed

lemma write_notified:
  "\<exists>w' c. tb_config_write tbcfg_proto_example (\<lambda>x. (0, notify_during_wait x))
          (Allocated 30 frame_example) world_example 10 2 0 0 2 20
        = Some (EINVAL, w', Some c) \<and> ev c = 7 \<and> w_bufs w' 20 = Some [0, 0, 0, 0]"
proof -
  define wa where "wa = fst (snd (the (tb_config_write_raw tbcfg_proto_example
      (Allocated 30 frame_example) world_example 10 2 0 0 2 20 Router_get_config_cb)))"
  define wb where "wb = snd (the (router_schedule wa 10 30))"
  have a: "tb_config_write_raw tbcfg_proto_example
      (Allocated 30 frame_example) world_example 10 2 0 0 2 20 Router_get_config_cb
      = Some (0, wa, Some 30)"
    unfolding wa_def by (simp add: engine_defs example_defs Let_def)
  have a': "map_option retries (w_cmds wa 30) = Some 3"
    unfolding wa_def by (simp add: engine_defs example_defs Let_def CFG_DEFAULT_RETRIES_def)
  have b: "router_schedule wa 10 30 = Some (0, wb)"
    unfolding wb_def wa_def by (simp add: engine_defs example_defs Let_def)
  have c: "map_option ev (w_cmds (notify_during_wait wb) 30) = Some 7
      \<and> w_bufs (notify_during_wait wb) 20 = Some [0, 0, 0, 0]"
    unfolding wb_def wa_def notify_during_wait_def
    by (simp add: engine_defs example_defs Let_def)
  obtain cmd where cmd: "w_cmds wa 30 = Some cmd" "retries cmd = 3"
    using a' by auto
  obtain cf where cf: "w_cmds (notify_during_wait wb) 30 = Some cf" "ev cf = 7"
    using c by auto
  have l: "tb_config_sleep_loop (\<lambda>x. (0, notify_during_wait x)) 10 30 3 0 wa
      = Some (0, notify_during_wait wb)"
    by (rule tb_config_sleep_loop_woken [OF b]) simp_all
  show ?thesis
    using c by (simp add: tb_config_write_def a cmd l tb_config_finish_def cf router_free_cmd_def)
qed

subsection \<open>Claims\<close>

text \<open>
  C1. Over any sequence of scheduler and dispatcher operations on a node, started in
  any state: the number of frames the transport accepts is bounded by the number of
  slot-clearing operations (plus one if the slot was empty at the start), so a
  second command is submitted only after the slot has been cleared; the slot never
  holds more than one command; while the slot is occupied, enqueueing and draining
  neither change it nor submit anything; and every operation submits at most one
  command, which then occupies the slot.
\<close>

theorem inflight_slot_exclusive:
  "length (tx_frames (fst (sched_run ops (r, sc)))) + occupancy sc
     \<le> length (tx_frames r) + clears ops + occupancy (snd (sched_run ops (r, sc)))
   \<and> occupancy (snd (sched_run ops (r, sc))) \<le> 1
   \<and> (inflight_cmd sc \<noteq> None \<and> (x = Drain \<or> x \<in> range Enqueue) \<longrightarrow>
        inflight_cmd (snd (sched_step x (r, sc))) = inflight_cmd sc
        \<and> fst (sched_step x (r, sc)) = r)
   \<and> (tx_frames (fst (sched_step x (r, sc))) = tx_frames r
       \<or> (\<exists>c. tx_frames (fst (sched_step x (r, sc))) = tx_frames r @ [c]
               \<and> inflight_cmd (snd (sched_step x (r, sc))) = Some c))"
proof (intro conjI impI)
  show "length (tx_frames (fst (sched_run ops (r, sc)))) + occupancy sc
     \<le> length (tx_frames r) + clears ops + occupancy (snd (sched_run ops (r, sc)))"
    using sched_run_count [of ops "(r, sc)"] by simp
  show "occupancy (snd (sched_run ops (r, sc))) \<le> 1"
    by (simp add: occupancy_def split: option.split)
  show "inflight_cmd (snd (sched_step x (r, sc))) = inflight_cmd sc"
    if "inflight_cmd sc \<noteq> None \<and> (x = Drain \<or> x \<in> range Enqueue)"
    using that sched_step_occupied [of sc x r] by simp
  show "fst (sched_step x (r, sc)) = r"
    if "inflight_cmd sc \<noteq> None \<and> (x = Drain \<or> x \<in> range Enqueue)"
    using that sched_step_occupied [of sc x r] by simp
  show "tx_frames (fst (sched_step x (r, sc))) = tx_frames r
       \<or> (\<exists>c. tx_frames (fst (sched_step x (r, sc))) = tx_frames r @ [c]
               \<and> inflight_cmd (snd (sched_step x (r, sc))) = Some c)"
  proof (cases x)
    case (Enqueue c)
    then show ?thesis
      using router_schedule_locked_slot [of r sc "Some c"] by auto
  next
    case Drain
    then show ?thesis
      using router_schedule_locked_slot [of r sc None] by auto
  next
    case Completion
    then show ?thesis
      using router_schedule_locked_slot [of r "sc\<lparr>inflight_cmd := None\<rparr>" None]
      by (auto simp add: router_get_config_cb_sc_def Let_def)
  next
    case Timeout_clear
    then show ?thesis by simp
  qed
qed

theorem inflight_slot_exclusive_witness:
  "inflight_cmd (sc_example\<lparr>inflight_cmd := Some 5\<rparr>) \<noteq> None
   \<and> inflight_cmd (snd (sched_step (Enqueue 6)
        (\<lparr>tx_script = [], tx_frames = []\<rparr>, sc_example\<lparr>inflight_cmd := Some 5\<rparr>))) = Some 5
   \<and> fst (sched_step (Enqueue 6)
        (\<lparr>tx_script = [], tx_frames = []\<rparr>, sc_example\<lparr>inflight_cmd := Some 5\<rparr>))
       = \<lparr>tx_script = [], tx_frames = []\<rparr>
   \<and> length (tx_frames (fst (sched_run [Enqueue 6, Enqueue 7, Completion, Timeout_clear, Drain]
        (\<lparr>tx_script = [], tx_frames = []\<rparr>, sc_example)))) \<le> 3"
  using inflight_slot_exclusive [of "[Enqueue 6, Enqueue 7, Completion, Timeout_clear, Drain]"
      "\<lparr>tx_script = [], tx_frames = []\<rparr>" "sc_example" "Enqueue 6"]
    inflight_slot_exclusive [of "[]"
      "\<lparr>tx_script = [], tx_frames = []\<rparr>" "sc_example\<lparr>inflight_cmd := Some 5\<rparr>" "Enqueue 6"]
  by (simp add: occupancy_def sc_example_def split: option.splits)

text \<open>
  C2. The node's slot is free and the queue (after appending the submitted command, if
  any) has head \<open>h\<close>; the transport answers the submission of \<open>h\<close> with the non-zero
  result \<open>e\<close>. If \<open>e\<close> is \<^verbatim>\<open>EBUSY\<close> the queue is left as it was, \<open>h\<close> first, and
  the scheduler returns 0; otherwise \<open>h\<close> is dropped and \<open>e\<close> is returned. In both
  cases the slot is empty afterwards, nothing else is submitted and no frame has
  been accepted.
\<close>

theorem router_schedule_locked_busy_requeues:
  assumes "inflight_cmd sc = None"
    and "cmd_queue sc @ (case cmd of None \<Rightarrow> [] | Some c \<Rightarrow> [c]) = h # rest"
    and "tx_script r = e # es" and "e \<noteq> 0"
  shows "router_schedule_locked r sc cmd =
           (if e = EBUSY then 0 else e, r\<lparr>tx_script := es\<rparr>,
            sc\<lparr>cmd_queue := (if e = EBUSY then h # rest else rest)\<rparr>)
         \<and> inflight_cmd (snd (snd (router_schedule_locked r sc cmd))) = None"
proof -
  define sc' where "sc' = (case cmd of None \<Rightarrow> sc
                 | Some c \<Rightarrow> sc\<lparr>cmd_queue := cmd_queue sc @ [c]\<rparr>)"
  have i: "inflight_cmd sc' = None"
    using assms(1) by (simp add: sc'_def split: option.split)
  have q: "cmd_queue sc' = h # rest"
    using assms(2) by (simp add: sc'_def split: option.splits)
  have t: "nhi_tx_schedule r h = (e, r\<lparr>tx_script := es\<rparr>)"
    using assms(3,4) by (simp add: nhi_tx_schedule_def)
  have u: "sc'\<lparr>cmd_queue := xs\<rparr> = sc\<lparr>cmd_queue := xs\<rparr>" for xs
    by (simp add: sc'_def split: option.split)
  have "router_schedule_locked r sc cmd = router_schedule_loop r sc' 0"
    by (simp add: router_schedule_locked_def sc'_def)
  also have "\<dots> = (if e = EBUSY then 0 else e, r\<lparr>tx_script := es\<rparr>,
            sc\<lparr>cmd_queue := (if e = EBUSY then h # rest else rest)\<rparr>)"
    using assms(4) by (simp add: router_schedule_loop_head [OF i q] t u)
  finally show ?thesis
    using assms(1) by simp
qed

theorem router_schedule_locked_busy_requeues_witness:
  "router_schedule_locked \<lparr>tx_script = [EBUSY], tx_frames = []\<rparr>
       (sc_example\<lparr>cmd_queue := [1, 2]\<rparr>) (Some 3)
     = (0, \<lparr>tx_script = [], tx_frames = []\<rparr>, sc_example\<lparr>cmd_queue := [1, 2, 3]\<rparr>)
   \<and> router_schedule_locked \<lparr>tx_script = [EINVAL], tx_frames = []\<rparr>
       (sc_example\<lparr>cmd_queue := [1, 2]\<rparr>) None
     = (EINVAL, \<lparr>tx_script = [], tx_frames = []\<rparr>, sc_example\<lparr>cmd_queue := [2]\<rparr>)"
  using router_schedule_locked_busy_requeues [of "sc_example\<lparr>cmd_queue := [1, 2]\<rparr>"
      "Some 3" 1 "[2, 3]" "\<lparr>tx_script = [EBUSY], tx_frames = []\<rparr>" EBUSY "[]"]
    router_schedule_locked_busy_requeues [of "sc_example\<lparr>cmd_queue := [1, 2]\<rparr>"
      None 1 "[2]" "\<lparr>tx_script = [EINVAL], tx_frames = []\<rparr>" EINVAL "[]"]
  by (simp add: sc_example_def errno_defs)

text \<open>
  C8 (as amended). Detach is refused with \<^verbatim>\<open>EBUSY\<close>, and nothing is freed, exactly
  when the node's queue is not empty. The inflight slot plays no part in the decision.
  When the queue is empty detach returns 0 and the node is released.
\<close>

theorem tb_router_detach_queue_only:
  "(fst (tb_router_detach p sc) = EBUSY \<longleftrightarrow> cmd_queue sc \<noteq> [])
   \<and> (cmd_queue sc \<noteq> [] \<longrightarrow> snd (tb_router_detach p sc) = [])
   \<and> (cmd_queue sc = [] \<longrightarrow>
        fst (tb_router_detach p sc) = 0 \<and> p \<in> set (snd (tb_router_detach p sc)))
   \<and> tb_router_detach p (sc\<lparr>inflight_cmd := c\<rparr>) = tb_router_detach p sc"
  by (simp add: tb_router_detach_def EBUSY_def)

theorem tb_router_detach_queue_only_witness:
  "cmd_queue (sc_example\<lparr>cmd_queue := [4]\<rparr>) \<noteq> []
   \<and> tb_router_detach 1 (sc_example\<lparr>cmd_queue := [4]\<rparr>) = (EBUSY, [])
   \<and> cmd_queue sc_example = []
   \<and> tb_router_detach 1 sc_example = (0, [1])"
  using tb_router_detach_queue_only [of 1 "sc_example\<lparr>cmd_queue := [4]\<rparr>" None]
    tb_router_detach_queue_only [of 1 sc_example None]
  by (simp add: sc_example_def tb_router_detach_def)

text \<open>
  C8 as stated fails: a node whose queue is empty but whose inflight slot holds
  command 7 is detached (result 0) and freed.
\<close>

theorem tb_router_detach_inflight_counterexample:
  "inflight_cmd (sc_example\<lparr>inflight_cmd := Some 7\<rparr>) = Some 7
   \<and> tb_router_detach 1 (sc_example\<lparr>inflight_cmd := Some 7\<rparr>) = (0, [1])"
  by (simp add: sc_example_def tb_router_detach_def)

text \<open>
  C10. Resume always returns 0 and never changes the node: in particular the
  \<open>suspended\<close> flag keeps its value, so a suspended node stays suspended.
\<close>

theorem tb_router_resume_keeps_flag:
  "tb_router_resume sc = (0, sc)"
  by (cases "suspended sc") (simp_all add: tb_router_resume_def)

text \<open>
  C5, evaluated. The root (route 0, depth 0) has four free adapter slots, the child
  has route 1 and depth 1, one hop below the root at adapter 1. The insertion
  succeeds but stores the child at adapter index 0, because the hop is taken from
  byte \<open>depth\<close> of the route; the lookup of route 1, which descends through the
  lowest route byte, then finds nothing. A second insertion of the same child is
  refused with \<^verbatim>\<open>EEXIST\<close> and changes nothing.
\<close>

theorem router_insert_then_lookup_misses:
  "router_insert heap_example 11 (Some 10) =
     Some (0, heap_example(10 \<mapsto>
       root_example\<lparr>adapters := Some [Some 11, None, None, None]\<rparr>))
   \<and> router_lookup_device
        (heap_example(10 \<mapsto> root_example\<lparr>adapters := Some [Some 11, None, None, None]\<rparr>))
        (Some 10) (route child_example) = Some (ENOENT, None)
   \<and> router_insert
        (heap_example(10 \<mapsto> root_example\<lparr>adapters := Some [Some 11, None, None, None]\<rparr>))
        11 (Some 10)
       = Some (EEXIST,
           heap_example(10 \<mapsto> root_example\<lparr>adapters := Some [Some 11, None, None, None]\<rparr>))"
  by (simp add: router_insert_def router_lookup_device_def router_lookup_loop.simps
      heap_example_def root_example_def child_example_def sc_example_def TB_ROUTE_def)

text \<open>
  C9 (as amended). While the target is not matched, the walk returns \<^verbatim>\<open>EINVAL\<close>
  without reading anything as soon as the next-capability offset is zero or exceeds
  \<^verbatim>\<open>TB_CFG_CAP_OFFSET_MAX\<close>; and on a chain whose offsets ascend the walk
  terminates.
\<close>

theorem tb_config_find_cap_guard:
  "((cap_id cap \<noteq> wc \<or> vsc_id cap \<noteq> wv)
      \<and> (next_cap cap = 0 \<or> TB_CFG_CAP_OFFSET_MAX K < next_cap cap)
     \<longrightarrow> tb_config_find_cap_loop K rd wc wv cap s = Some (EINVAL, cap, s))
   \<and> (chain_ascends K rd \<longrightarrow> (\<exists>y. tb_config_find_cap K rd s cap = Some y))"
proof (intro conjI impI)
  assume "(cap_id cap \<noteq> wc \<or> vsc_id cap \<noteq> wv)
      \<and> (next_cap cap = 0 \<or> TB_CFG_CAP_OFFSET_MAX K < next_cap cap)"
  then show "tb_config_find_cap_loop K rd wc wv cap s = Some (EINVAL, cap, s)"
    using find_cap_loop_stop [of cap wc wv K rd s] by blast
next
  assume "chain_ascends K rd"
  then show "\<exists>y. tb_config_find_cap K rd s cap = Some y"
    unfolding tb_config_find_cap_def by (rule find_cap_loop_terminates)
qed

theorem tb_config_find_cap_guard_witness:
  "chain_ascends tbcfg_example ascending_reader
   \<and> tb_config_find_cap tbcfg_example ascending_reader () cap_example
       = Some (EINVAL, cap_example\<lparr>cap_id := 3, next_cap := 0, current_cap := 3\<rparr>, ())
   \<and> tb_config_find_cap_loop tbcfg_example ascending_reader 7 0
        (cap_example\<lparr>next_cap := 5000\<rparr>) ()
       = Some (EINVAL, cap_example\<lparr>next_cap := 5000\<rparr>, ())"
proof -
  have a: "chain_ascends tbcfg_example ascending_reader"
    by (rule ascending_reader_ascends)
  have b: "\<exists>y. tb_config_find_cap tbcfg_example ascending_reader () cap_example = Some y"
    using tb_config_find_cap_guard [of cap_example 4 0 tbcfg_example ascending_reader "()"] a
    by simp
  have c: "tb_config_find_cap tbcfg_example ascending_reader () cap_example
       = Some (EINVAL, cap_example\<lparr>cap_id := 3, next_cap := 0, current_cap := 3\<rparr>, ())"
    using b
    by (simp add: tb_config_find_cap_def tb_config_find_cap_loop.simps tb_config_next_cap_def
        ascending_reader_def tbcfg_example_def cap_example_def)
  have d: "tb_config_find_cap_loop tbcfg_example ascending_reader 7 0
        (cap_example\<lparr>next_cap := 5000\<rparr>) ()
       = Some (EINVAL, cap_example\<lparr>next_cap := 5000\<rparr>, ())"
  proof -
    have "(cap_id (cap_example\<lparr>next_cap := 5000\<rparr>) \<noteq> 7
          \<or> vsc_id (cap_example\<lparr>next_cap := 5000\<rparr>) \<noteq> 0)
        \<and> (next_cap (cap_example\<lparr>next_cap := 5000\<rparr>) = 0
          \<or> TB_CFG_CAP_OFFSET_MAX tbcfg_example < next_cap (cap_example\<lparr>next_cap := 5000\<rparr>))"
      by (simp add: cap_example_def tbcfg_example_def)
    then show ?thesis
      using tb_config_find_cap_guard [of "cap_example\<lparr>next_cap := 5000\<rparr>" 7 0
          tbcfg_example ascending_reader "()"]
      by blast
  qed
  from a c d show ?thesis by simp
qed

text \<open>
  C9 as stated fails: on a chain that cycles below the offset bound (the capability at
  offset 1 names offset 1 as its successor) the walk for an absent capability never
  returns.
\<close>

theorem tb_config_find_cap_cycle_counterexample:
  "tb_config_find_cap tbcfg_example cyclic_reader () cap_example = None"
proof (cases "tb_config_find_cap tbcfg_example cyclic_reader () cap_example")
  case None
  then show ?thesis .
next
  case (Some y)
  then have "tb_config_find_cap_loop tbcfg_example cyclic_reader 4 0
      (cap_example\<lparr>cap_id := 0, vsc_id := 0\<rparr>) () = Some y"
    by (simp add: tb_config_find_cap_def cap_example_def)
  from cyclic_walk_no_result [OF this] show ?thesis
    by (simp add: cap_example_def)
qed

text \<open>
  C3. A node is idle (empty slot, empty queue), the transport accepts every
  submission, and no completion arrives: every wait ends by timeout and leaves the
  state as it is. Then the blocking read, the polled read and the blocking write each
  run a command with the default budget (3 retries, timeout 2), submit it
  \<^verbatim>\<open>CFG_DEFAULT_RETRIES\<close> + 1 = 4 times, leave the slot empty, and
  return the timeout error: \<^verbatim>\<open>EWOULDBLOCK\<close>, the timeout result of \<^verbatim>\<open>msleep\<close>,
  from the blocking calls and \<^verbatim>\<open>ETIMEDOUT\<close> from the polled call.
\<close>

theorem tb_config_timeout_retries:
  assumes "w_nodes w sc = Some n" and "inflight_cmd n = None" and "cmd_queue n = []"
    and "\<forall>e\<in>set (tx_script (w_ring w)). e = 0"
    and "\<forall>x. M x = (EWOULDBLOCK, x)" and "\<forall>x. D x = x"
  shows "(\<exists>w' c. tb_config_read K M (Allocated p f) w sc spc adapter offset dwl buf
              = Some (EWOULDBLOCK, w', Some c)
            \<and> retries c = CFG_DEFAULT_RETRIES \<and> timeout c = CFG_DEFAULT_TIMEOUT
            \<and> tx_frames (w_ring w')
                = tx_frames (w_ring w) @ replicate (nat (CFG_DEFAULT_RETRIES + 1)) p
            \<and> w_nodes w' sc = Some n)
       \<and> (\<exists>w' c. tb_config_read_polled K D (Allocated p f) w sc spc adapter offset dwl buf
              = Some (ETIMEDOUT, w', Some c)
            \<and> retries c = CFG_DEFAULT_RETRIES \<and> timeout c = CFG_DEFAULT_TIMEOUT
            \<and> tx_frames (w_ring w')
                = tx_frames (w_ring w) @ replicate (nat (CFG_DEFAULT_RETRIES + 1)) p
            \<and> w_nodes w' sc = Some n)
       \<and> (w_bufs w buf = Some src \<and> dwl \<le> length src \<and> 3 + dwl \<le> length (data f) \<longrightarrow>
           (\<exists>w' c. tb_config_write K M (Allocated p f) w sc spc adapter offset dwl buf
              = Some (EWOULDBLOCK, w', Some c)
            \<and> retries c = CFG_DEFAULT_RETRIES \<and> timeout c = CFG_DEFAULT_TIMEOUT
            \<and> tx_frames (w_ring w')
                = tx_frames (w_ring w) @ replicate (nat (CFG_DEFAULT_RETRIES + 1)) p
            \<and> w_nodes w' sc = Some n))"
proof (intro conjI impI)
  from tb_config_read_raw_allocated [OF assms(1), of K p f spc adapter offset dwl buf
      Router_get_config_cb]
  obtain cmd where cmd: "tb_config_read_raw K (Allocated p f) w sc spc adapter offset dwl buf
        Router_get_config_cb = Some (0, w\<lparr>w_cmds := (w_cmds w)(p \<mapsto> cmd)\<rparr>, Some p)"
      "retries cmd = CFG_DEFAULT_RETRIES" "ev cmd = 0" "\<not> polled cmd" "\<not> poll_complete cmd"
      "timeout cmd = CFG_DEFAULT_TIMEOUT"
    by blast
  let ?w1 = "w\<lparr>w_cmds := (w_cmds w)(p \<mapsto> cmd)\<rparr>"
  have n1: "w_nodes ?w1 sc = Some n" using assms(1) by simp
  have s1: "\<forall>e\<in>set (tx_script (w_ring ?w1)). e = 0" using assms(4) by simp
  from tb_config_sleep_loop_timeouts [OF assms(5) assms(2,3) n1 s1, of p 3 0]
  obtain w' where w': "tb_config_sleep_loop M sc p 3 0 ?w1 = Some (EWOULDBLOCK, w')"
      "w_nodes w' sc = Some n"
      "tx_frames (w_ring w') = tx_frames (w_ring ?w1) @ replicate 4 p"
      "w_cmds w' = w_cmds ?w1"
    by auto
  show "\<exists>w' c. tb_config_read K M (Allocated p f) w sc spc adapter offset dwl buf
              = Some (EWOULDBLOCK, w', Some c)
            \<and> retries c = CFG_DEFAULT_RETRIES \<and> timeout c = CFG_DEFAULT_TIMEOUT
            \<and> tx_frames (w_ring w')
                = tx_frames (w_ring w) @ replicate (nat (CFG_DEFAULT_RETRIES + 1)) p
            \<and> w_nodes w' sc = Some n"
    using w' cmd(2,3,6)
    by (simp add: tb_config_read_def cmd(1) tb_config_finish_def router_free_cmd_def
        CFG_DEFAULT_RETRIES_def)
next
  from tb_config_read_raw_allocated [OF assms(1), of K p f spc adapter offset dwl buf
      Router_get_config_cb]
  obtain cmd where cmd: "tb_config_read_raw K (Allocated p f) w sc spc adapter offset dwl buf
        Router_get_config_cb = Some (0, w\<lparr>w_cmds := (w_cmds w)(p \<mapsto> cmd)\<rparr>, Some p)"
      "retries cmd = CFG_DEFAULT_RETRIES" "ev cmd = 0" "\<not> polled cmd" "\<not> poll_complete cmd"
      "timeout cmd = CFG_DEFAULT_TIMEOUT"
    by blast
  let ?c = "cmd\<lparr>polled := True\<rparr>"
  let ?w2 = "w\<lparr>w_cmds := (w_cmds w)(p \<mapsto> ?c)\<rparr>"
  have n2: "w_nodes ?w2 sc = Some n" using assms(1) by simp
  have c2: "w_cmds ?w2 p = Some ?c" by simp
  have pc: "\<not> poll_complete ?c" using cmd(5) by simp
  have s2: "\<forall>e\<in>set (tx_script (w_ring ?w2)). e = 0" using assms(4) by simp
  from tb_config_poll_loop_timeouts [OF assms(6) assms(2,3) pc n2 c2 s2, of 3 "2000000" 0]
  obtain w' where w': "tb_config_poll_loop D sc p 3 2000000 0 ?w2 = Some (ETIMEDOUT, w')"
      "w_nodes w' sc = Some n"
      "tx_frames (w_ring w') = tx_frames (w_ring ?w2) @ replicate 4 p"
      "w_cmds w' = w_cmds ?w2"
    by auto
  show "\<exists>w' c. tb_config_read_polled K D (Allocated p f) w sc spc adapter offset dwl buf
              = Some (ETIMEDOUT, w', Some c)
            \<and> retries c = CFG_DEFAULT_RETRIES \<and> timeout c = CFG_DEFAULT_TIMEOUT
            \<and> tx_frames (w_ring w')
                = tx_frames (w_ring w) @ replicate (nat (CFG_DEFAULT_RETRIES + 1)) p
            \<and> w_nodes w' sc = Some n"
    using w' cmd(2,3,6)
    by (simp add: tb_config_read_polled_def cmd(1) tb_config_finish_def router_free_cmd_def
        CFG_DEFAULT_RETRIES_def CFG_DEFAULT_TIMEOUT_def Let_def)
next
  assume b: "w_bufs w buf = Some src \<and> dwl \<le> length src \<and> 3 + dwl \<le> length (data f)"
  from tb_config_write_raw_allocated [OF assms(1), of buf src dwl f K p spc adapter offset
      Router_get_config_cb] b
  obtain cmd where cmd: "tb_config_write_raw K (Allocated p f) w sc spc adapter offset dwl buf
        Router_get_config_cb = Some (0, w\<lparr>w_cmds := (w_cmds w)(p \<mapsto> cmd)\<rparr>, Some p)"
      "retries cmd = CFG_DEFAULT_RETRIES" "ev cmd = 0" "timeout cmd = CFG_DEFAULT_TIMEOUT"
    by blast
  let ?w1 = "w\<lparr>w_cmds := (w_cmds w)(p \<mapsto> cmd)\<rparr>"
  have n1: "w_nodes ?w1 sc = Some n" using assms(1) by simp
  have s1: "\<forall>e\<in>set (tx_script (w_ring ?w1)). e = 0" using assms(4) by simp
  from tb_config_sleep_loop_timeouts [OF assms(5) assms(2,3) n1 s1, of p 3 0]
  obtain w' where w': "tb_config_sleep_loop M sc p 3 0 ?w1 = Some (EWOULDBLOCK, w')"
      "w_nodes w' sc = Some n"
      "tx_frames (w_ring w') = tx_frames (w_ring ?w1) @ replicate 4 p"
      "w_cmds w' = w_cmds ?w1"
    by auto
  show "\<exists>w' c. tb_config_write K M (Allocated p f) w sc spc adapter offset dwl buf
              = Some (EWOULDBLOCK, w', Some c)
            \<and> retries c = CFG_DEFAULT_RETRIES \<and> timeout c = CFG_DEFAULT_TIMEOUT
            \<and> tx_frames (w_ring w')
                = tx_frames (w_ring w) @ replicate (nat (CFG_DEFAULT_RETRIES + 1)) p
            \<and> w_nodes w' sc = Some n"
    using w' cmd(2,3,4)
    by (simp add: tb_config_write_def cmd(1) tb_config_finish_def router_free_cmd_def
        CFG_DEFAULT_RETRIES_def)
qed

theorem tb_config_timeout_retries_witness:
  "w_nodes world_example 10 = Some root_example
   \<and> inflight_cmd root_example = None \<and> cmd_queue root_example = []
   \<and> tx_script (w_ring world_example) = []
   \<and> (\<exists>w' c. tb_config_read tbcfg_proto_example (\<lambda>x. (EWOULDBLOCK, x))
          (Allocated 30 frame_example) world_example 10 2 0 0 2 20
          = Some (EWOULDBLOCK, w', Some c) \<and> retries c = 3 \<and> timeout c = 2
        \<and> tx_frames (w_ring w') = [30, 30, 30, 30])
   \<and> (\<exists>w' c. tb_config_read_polled tbcfg_proto_example (\<lambda>x. x)
          (Allocated 30 frame_example) world_example 10 2 0 0 2 20
          = Some (ETIMEDOUT, w', Some c) \<and> retries c = 3 \<and> timeout c = 2
        \<and> tx_frames (w_ring w') = [30, 30, 30, 30])
   \<and> (\<exists>w' c. tb_config_write tbcfg_proto_example (\<lambda>x. (EWOULDBLOCK, x))
          (Allocated 30 frame_example) world_example 10 2 0 0 2 20
          = Some (EWOULDBLOCK, w', Some c) \<and> retries c = 3 \<and> timeout c = 2
        \<and> tx_frames (w_ring w') = [30, 30, 30, 30])"
proof -
  have h: "w_nodes world_example 10 = Some root_example"
      "inflight_cmd root_example = None" "cmd_queue root_example = []"
      "\<forall>e\<in>set (tx_script (w_ring world_example)). e = 0"
      "\<forall>x. (\<lambda>x. (EWOULDBLOCK, x)) x = (EWOULDBLOCK, x)" "\<forall>x::world. (\<lambda>x. x) x = x"
    by (simp_all add: world_example_def root_example_def sc_example_def)
  have b: "w_bufs world_example 20 = Some [0, 0, 0, 0] \<and> 2 \<le> length [0::32 word, 0, 0, 0]
      \<and> 3 + 2 \<le> length (data frame_example)"
    by (simp add: world_example_def frame_example_def)
  have f: "tx_frames (w_ring world_example) = []" "tx_script (w_ring world_example) = []"
      "replicate 4 (30::nat) = [30, 30, 30, 30]"
      "CFG_DEFAULT_RETRIES = 3" "CFG_DEFAULT_TIMEOUT = 2"
    by (simp_all add: world_example_def CFG_DEFAULT_RETRIES_def CFG_DEFAULT_TIMEOUT_def
        numeral_eq_Suc)
  show ?thesis
    using tb_config_timeout_retries [OF h, of tbcfg_proto_example 30 frame_example 2 0 0 2 20
        "[0, 0, 0, 0]"] b h(1,2,3)
    by (simp add: f) blast
qed

text \<open>
  C4 (as amended). When the command of a blocking read, a polled read or a blocking
  write carries a non-zero event code at the end, the call returns \<^verbatim>\<open>EINVAL\<close>; and
  \<^verbatim>\<open>router_get_config_cb\<close> leaves the callers' buffers untouched when the command
  carries a non-zero event code.
\<close>

theorem async_event_forces_einval:
  "(tb_config_read K M A w sc spc adapter offset dwl buf = Some (err, w', Some c) \<and> ev c \<noteq> 0
      \<longrightarrow> err = EINVAL)
   \<and> (tb_config_read_polled K D A w sc spc adapter offset dwl buf = Some (err, w', Some c)
        \<and> ev c \<noteq> 0 \<longrightarrow> err = EINVAL)
   \<and> (tb_config_write K M A w sc spc adapter offset dwl buf = Some (err, w', Some c) \<and> ev c \<noteq> 0
        \<longrightarrow> err = EINVAL)
   \<and> (w_cmds w p = Some cmd \<and> ev cmd \<noteq> 0 \<and> router_get_config_cb w sc p = Some w''
        \<longrightarrow> w_bufs w'' = w_bufs w)"
proof (intro conjI impI)
  assume "tb_config_read K M A w sc spc adapter offset dwl buf = Some (err, w', Some c) \<and> ev c \<noteq> 0"
  then show "err = EINVAL"
    using tb_config_read_finish tb_config_finish_event by blast
next
  assume "tb_config_read_polled K D A w sc spc adapter offset dwl buf = Some (err, w', Some c)
        \<and> ev c \<noteq> 0"
  then show "err = EINVAL"
    using tb_config_read_polled_finish tb_config_finish_event by blast
next
  assume "tb_config_write K M A w sc spc adapter offset dwl buf = Some (err, w', Some c) \<and> ev c \<noteq> 0"
  then show "err = EINVAL"
    using tb_config_write_finish tb_config_finish_event by blast
next
  assume "w_cmds w p = Some cmd \<and> ev cmd \<noteq> 0 \<and> router_get_config_cb w sc p = Some w''"
  then show "w_bufs w'' = w_bufs w"
    using router_get_config_cb_event by blast
qed

theorem async_event_forces_einval_witness:
  "(\<exists>w' c. tb_config_read tbcfg_proto_example (\<lambda>x. (0, notify_during_wait x))
          (Allocated 30 frame_example) world_example 10 2 0 0 2 20
        = Some (EINVAL, w', Some c) \<and> ev c \<noteq> 0)
   \<and> (\<exists>w' c. tb_config_read_polled tbcfg_proto_example notify_during_wait
          (Allocated 30 frame_example) world_example 10 2 0 0 2 20
        = Some (EINVAL, w', Some c) \<and> ev c \<noteq> 0)
   \<and> (\<exists>w' c. tb_config_write tbcfg_proto_example (\<lambda>x. (0, notify_during_wait x))
          (Allocated 30 frame_example) world_example 10 2 0 0 2 20
        = Some (EINVAL, w', Some c) \<and> ev c \<noteq> 0)
   \<and> ev cmd_example \<noteq> 0
   \<and> map_option w_bufs (router_get_config_cb
          (world_example\<lparr>w_cmds := [30 \<mapsto> cmd_example]\<rparr>) 10 30)
       = Some (w_bufs world_example)"
proof -
  obtain w1 c1 where r: "tb_config_read tbcfg_proto_example (\<lambda>x. (0, notify_during_wait x))
          (Allocated 30 frame_example) world_example 10 2 0 0 2 20
        = Some (EINVAL, w1, Some c1)" "ev c1 = 7"
    using read_notified by blast
  obtain w2 c2 where p: "tb_config_read_polled tbcfg_proto_example notify_during_wait
          (Allocated 30 frame_example) world_example 10 2 0 0 2 20
        = Some (EINVAL, w2, Some c2)" "ev c2 = 7"
    using polled_notified by blast
  obtain w3 c3 where q: "tb_config_write tbcfg_proto_example (\<lambda>x. (0, notify_during_wait x))
          (Allocated 30 frame_example) world_example 10 2 0 0 2 20
        = Some (EINVAL, w3, Some c3)" "ev c3 = 7"
    using write_notified by blast
  have e: "ev c1 \<noteq> 0" "ev c2 \<noteq> 0" "ev c3 \<noteq> 0" using r(2) p(2) q(2) by simp_all
  have "EINVAL = EINVAL"
    using async_event_forces_einval [where K = tbcfg_proto_example
        and M = "\<lambda>x. (0, notify_during_wait x)" and A = "Allocated 30 frame_example"
        and w = world_example and sc = 10 and spc = 2 and adapter = 0 and offset = 0
        and dwl = 2 and buf = 20 and err = EINVAL and w' = w1 and c = c1] r(1) e(1)
      async_event_forces_einval [where K = tbcfg_proto_example
        and D = notify_during_wait and A = "Allocated 30 frame_example"
        and w = world_example and sc = 10 and spc = 2 and adapter = 0 and offset = 0
        and dwl = 2 and buf = 20 and err = EINVAL and w' = w2 and c = c2] p(1) e(2)
      async_event_forces_einval [where K = tbcfg_proto_example
        and M = "\<lambda>x. (0, notify_during_wait x)" and A = "Allocated 30 frame_example"
        and w = world_example and sc = 10 and spc = 2 and adapter = 0 and offset = 0
        and dwl = 2 and buf = 20 and err = EINVAL and w' = w3 and c = c3] q(1) e(3)
    by simp
  obtain w4 where g: "router_get_config_cb
          (world_example\<lparr>w_cmds := [30 \<mapsto> cmd_example]\<rparr>) 10 30 = Some w4"
    by (simp add: router_get_config_cb_def router_get_config_cb_sc_def
        router_schedule_locked_def router_schedule_loop_idle
        world_example_def cmd_example_def root_example_def sc_example_def Let_def)
  have "w_bufs w4 = w_bufs (world_example\<lparr>w_cmds := [30 \<mapsto> cmd_example]\<rparr>)"
    using async_event_forces_einval [where w = "world_example\<lparr>w_cmds := [30 \<mapsto> cmd_example]\<rparr>"
        and p = 30 and cmd = cmd_example and sc = 10 and w'' = w4] g
    by (simp add: cmd_example_def)
  then show ?thesis
    using r p q e g by (auto simp add: cmd_example_def)
qed

text \<open>
  C4 as stated fails for the asynchronous mode: the asynchronous read returns 0 when
  the command is scheduled; the notification with event code 7 that arrives later
  completes the command (the caller's callback is invoked, the command carries event
  code 7), and nothing turns the result into \<^verbatim>\<open>EINVAL\<close>.
\<close>

theorem async_read_event_counterexample: "case tb_config_read_async tbcfg_proto_example (Allocated 30 frame_example)
          world_example 10 2 0 0 2 20 (Caller_cb 1) of
     None \<Rightarrow> False
   | Some (e, w) \<Rightarrow>
       e = 0 \<and> (case router_notify_intr tbcfg_proto_example w 10 [0, 0, htobe32 7] of
                  None \<Rightarrow> False
                | Some w' \<Rightarrow> map_option ev (w_cmds w' 30) = Some 7
                    \<and> w_calls w' = [(Caller_cb 1, 10, 30)])"
  by (simp add: tb_config_read_async_def engine_defs example_defs Let_def)

text \<open>
  C6, evaluated. An asynchronous read of two words is inflight on the root, so
  \<^verbatim>\<open>resp_len\<close> is (2 + 3) * 4 = 20. The read response declares five data words:
  \<^verbatim>\<open>MIN(len, resp_len)\<close> is 5 and five words reach the response buffer, three more
  than were requested. The request-side completion flag is not set, so no callback is
  invoked.
\<close>

theorem router_response_copies_past_request:
  "case tb_config_read_async tbcfg_proto_example (Allocated 30 frame_example)
          world_example 10 2 0 0 2 20 (Caller_cb 1) of
     None \<Rightarrow> False
   | Some (e, w1) \<Rightarrow>
       (case router_response_intr tbcfg_proto_example w1 10 PDF_READ rx_example of
          None \<Rightarrow> False
        | Some w2 \<Rightarrow>
            map_option dwlen (w_cmds w2 30) = Some 2
            \<and> map_option (take 6 \<circ> resp_buffer) (w_cmds w2 30)
                = Some [0x11, 0x22, 0x33, 0x44, 0x55, 0]
            \<and> w_calls w2 = [])"
  by (simp add: tb_config_read_async_def engine_defs example_defs Let_def rx_example_def
      router_response_intr_def router_lookup_device_def router_lookup_loop.simps TB_ROUTE_def
      resp_copy_loop.simps frame_bzero_def frame_checksum_def replicate_words)

text \<open>
  C7, evaluated. A hotplug event for adapter 5 and one for adapter 9 of the same
  route, both plug events, produce the same acknowledgment frame: route words, then
  the event word \<^verbatim>\<open>TB_CFG_HP_ACK | TB_CFG_PG_PLUG\<close>, then the checksum. The adapter
  number of the event is not in the frame.
\<close>

theorem router_hotplug_ack_drops_adapter:
  "router_hotplug_intr tbcfg_proto_example (Allocated 30 frame_example)
       \<lparr>tx_script = [], tx_frames = []\<rparr> (hotplug_rx 5)
     = router_hotplug_intr tbcfg_proto_example (Allocated 30 frame_example)
       \<lparr>tx_script = [], tx_frames = []\<rparr> (hotplug_rx 9)
   \<and> map_option (map (take 4 \<circ> data) \<circ> tx_frames)
        (router_hotplug_intr tbcfg_proto_example (Allocated 30 frame_example)
           \<lparr>tx_script = [], tx_frames = []\<rparr> (hotplug_rx 5))
       = Some [[htobe32 0, htobe32 0x301, htobe32 0x40000007, htobe32 0]]"
proof -
  have h: "be32toh (htobe32 0) = 0" "be32toh (htobe32 0x301) = 0x301"
      "be32toh (htobe32 5) AND 0x80000000 = 0" "be32toh (htobe32 9) AND 0x80000000 = 0"
    by (simp_all add: be32toh_def htobe32_def)
  show ?thesis
    by (simp add: router_hotplug_intr_def router_hotplug_ack_def hotplug_rx_def
        tbcfg_proto_example_def frame_example_def nhi_tx_schedule_def frame_bzero_def
        frame_checksum_def h Let_def replicate_words list_update_Cons_numeral)
qed

end
